theory Spec2Isabelle
  imports Main
begin

section \<open>Python values that reach the handler\<close>

text \<open>
  The handler of \<^verbatim>\<open>app.py\<close> works on the decoded JSON body of the request. A Python
  \<^verbatim>\<open>float\<close> is kept by its exact value \<open>m * 2 ^ e\<close>, or as one of the special values.
  A Python \<^verbatim>\<open>str\<close> is a \<open>string\<close> whose characters are read as code points below 256.
  A \<^verbatim>\<open>dict\<close> is the list of its items; \<open>map_of\<close> looks a key up.
\<close>

datatype pyfloat = Finite int int | Infinity bool | NaN

datatype json =
    JNull
  | JBool bool
  | JInt int
  | JFloat pyfloat
  | JStr string
  | JArr "json list"
  | JObj "(string \<times> json) list"

text \<open>
  A raised \<^verbatim>\<open>Exception\<close>: its class name and the text that \<^verbatim>\<open>str(e)\<close> returns.
  Only instances of \<^verbatim>\<open>Exception\<close> are modelled, the ones \<^verbatim>\<open>except Exception\<close> catches.
\<close>

datatype exn = Exn (exn_class: string) (exn_str: string)

definition type_name :: "json \<Rightarrow> string" where
  "type_name j =
     (case j of
        JNull \<Rightarrow> ''NoneType''
      | JBool _ \<Rightarrow> ''bool''
      | JInt _ \<Rightarrow> ''int''
      | JFloat _ \<Rightarrow> ''float''
      | JStr _ \<Rightarrow> ''str''
      | JArr _ \<Rightarrow> ''list''
      | JObj _ \<Rightarrow> ''dict'')"

definition quote :: char where
  "quote = CHR 0x27"

definition dquote :: char where
  "dquote = CHR 0x22"

definition backslash :: char where
  "backslash = CHR 0x5C"

text \<open>\<^verbatim>\<open>x.get(key, default)\<close>: only a dict has the method.\<close>

definition json_get :: "json \<Rightarrow> string \<Rightarrow> json \<Rightarrow> exn + json" where
  "json_get j k dflt =
     (case j of
        JObj kv \<Rightarrow> Inr (case map_of kv k of None \<Rightarrow> dflt | Some v \<Rightarrow> v)
      | _ \<Rightarrow> Inl (Exn ''AttributeError''
                 ([quote] @ type_name j @ [quote] @ '' object has no attribute '' @
                  [quote] @ ''get'' @ [quote])))"

subsection \<open>The built-in \<^verbatim>\<open>int\<close>\<close>

definition hex_digit :: "nat \<Rightarrow> char" where
  "hex_digit n = (if n mod 16 < 10 then char_of (48 + n mod 16) else char_of (87 + n mod 16))"

definition printable :: "char \<Rightarrow> bool" where
  "printable c =
     (let n = (of_char c :: nat)
      in (32 \<le> n \<and> n < 127) \<or> (161 \<le> n \<and> n \<noteq> 173))"

definition repr_char :: "char \<Rightarrow> char \<Rightarrow> string" where
  "repr_char q c =
     (if c = q \<or> c = backslash then [backslash, c]
      else if c = CHR 0x09 then [backslash, CHR ''t'']
      else if c = CHR 0x0A then [backslash, CHR ''n'']
      else if c = CHR 0x0D then [backslash, CHR ''r'']
      else if printable c then [c]
      else [backslash, CHR ''x'', hex_digit (of_char c div 16), hex_digit (of_char c)])"

text \<open>\<^verbatim>\<open>repr\<close> of a \<^verbatim>\<open>str\<close>: double quotes only when the text has a single quote and no double quote.\<close>

definition py_repr :: "string \<Rightarrow> string" where
  "py_repr s =
     (let q = (if quote \<in> set s \<and> dquote \<notin> set s then dquote else quote)
      in [q] @ concat (map (repr_char q) s) @ [q])"

definition is_digit :: "char \<Rightarrow> bool" where
  "is_digit c = (48 \<le> (of_char c :: nat) \<and> (of_char c :: nat) \<le> 57)"

definition digit_val :: "char \<Rightarrow> nat" where
  "digit_val c = of_char c - 48"

definition ascii_space :: "char \<Rightarrow> bool" where
  "ascii_space c = ((of_char c :: nat) = 32 \<or> (9 \<le> (of_char c :: nat) \<and> (of_char c :: nat) \<le> 13))"

definition unicode_space :: "char \<Rightarrow> bool" where
  "unicode_space c =
     (ascii_space c \<or> (28 \<le> (of_char c :: nat) \<and> (of_char c :: nat) \<le> 31) \<or>
      (of_char c :: nat) = 133 \<or> (of_char c :: nat) = 160)"

text \<open>
  A text that is not pure ASCII is first rewritten: a character below 127 stays, white
  space from 127 on becomes a blank, and any other character becomes a question mark
  (there is no decimal digit between 127 and 255).
\<close>

definition to_ascii :: "string \<Rightarrow> string" where
  "to_ascii s =
     (if list_all (\<lambda>c. (of_char c :: nat) < 128) s then s
      else map (\<lambda>c. if (of_char c :: nat) < 127 then c
                     else if unicode_space c then CHR '' '' else CHR ''?'') s)"

definition strip :: "string \<Rightarrow> string" where
  "strip s = rev (dropWhile ascii_space (rev (dropWhile ascii_space s)))"

text \<open>Digits, with single underscores allowed between two digits; the value so far is \<open>acc\<close>.\<close>

fun more_digits :: "nat \<Rightarrow> string \<Rightarrow> nat option" where
  "more_digits acc [] = Some acc"
| "more_digits acc [c] = (if is_digit c then Some (acc * 10 + digit_val c) else None)"
| "more_digits acc (c # d # cs) =
     (if is_digit c then more_digits (acc * 10 + digit_val c) (d # cs)
      else if c = CHR ''_'' \<and> is_digit d then more_digits (acc * 10 + digit_val d) cs
      else None)"

definition digits :: "string \<Rightarrow> nat option" where
  "digits s =
     (case s of
        [] \<Rightarrow> None
      | c # cs \<Rightarrow> if is_digit c then more_digits (digit_val c) cs else None)"

definition parse_int :: "string \<Rightarrow> int option" where
  "parse_int s =
     (case strip (to_ascii s) of
        [] \<Rightarrow> None
      | c # cs \<Rightarrow>
          if c = CHR ''-'' then map_option (\<lambda>n. - int n) (digits cs)
          else if c = CHR ''+'' then map_option int (digits cs)
          else map_option int (digits (c # cs)))"

definition trunc :: "int \<Rightarrow> int \<Rightarrow> int" where
  "trunc m e =
     (if 0 \<le> e then m * 2 ^ nat e
      else if 0 \<le> m then m div 2 ^ nat (- e)
      else - ((- m) div 2 ^ nat (- e)))"

definition int_type_error :: "json \<Rightarrow> exn" where
  "int_type_error j =
     Exn ''TypeError''
       (''int() argument must be a string, a bytes-like object or a real number, not '' @
        [quote] @ type_name j @ [quote])"

text \<open>
  \<^verbatim>\<open>int(x)\<close> on a decoded JSON value. The message of the \<^verbatim>\<open>ValueError\<close> shows at most 200
  characters of the \<^verbatim>\<open>repr\<close>. The limit that CPython 3.11 puts on the number of
  digits of a text is not modelled.
\<close>

definition py_int :: "json \<Rightarrow> exn + int" where
  "py_int j =
     (case j of
        JInt n \<Rightarrow> Inr n
      | JBool b \<Rightarrow> Inr (if b then 1 else 0)
      | JFloat (Finite m e) \<Rightarrow> Inr (trunc m e)
      | JFloat (Infinity _) \<Rightarrow>
          Inl (Exn ''OverflowError'' ''cannot convert float infinity to integer'')
      | JFloat NaN \<Rightarrow> Inl (Exn ''ValueError'' ''cannot convert float NaN to integer'')
      | JStr s \<Rightarrow>
          (case parse_int s of
             Some n \<Rightarrow> Inr n
           | None \<Rightarrow>
               Inl (Exn ''ValueError''
                      (''invalid literal for int() with base 10: '' @ take 200 (py_repr s))))
      | _ \<Rightarrow> Inl (int_type_error j))"

section \<open>Library calls of the handler\<close>

subsection \<open>Time stamps\<close>

text \<open>
  The value of \<^verbatim>\<open>datetime.now()\<close>. A datetime object keeps its fields in range, and on
  such fields \<^verbatim>\<open>strftime("%Y%m%d_%H%M%S")\<close> writes four digits for the year and two for
  each other field.
\<close>

record datetime =
  year :: nat
  month :: nat
  day :: nat
  hour :: nat
  minute :: nat
  second :: nat
  microsecond :: nat

definition in_range :: "datetime \<Rightarrow> bool" where
  "in_range t =
     (1 \<le> year t \<and> year t \<le> 9999 \<and> 1 \<le> month t \<and> month t \<le> 12 \<and>
      1 \<le> day t \<and> day t \<le> 31 \<and> hour t < 24 \<and> minute t < 60 \<and> second t < 60 \<and>
      microsecond t < 1000000)"

definition digit :: "nat \<Rightarrow> char" where
  "digit n = char_of (48 + n mod 10)"

definition pad2 :: "nat \<Rightarrow> string" where
  "pad2 n = [digit (n div 10), digit n]"

definition pad4 :: "nat \<Rightarrow> string" where
  "pad4 n = [digit (n div 1000), digit (n div 100), digit (n div 10), digit n]"

definition strftime :: "datetime \<Rightarrow> string" where
  "strftime t =
     pad4 (year t) @ pad2 (month t) @ pad2 (day t) @ ''_'' @
     pad2 (hour t) @ pad2 (minute t) @ pad2 (second t)"

subsection \<open>Paths (POSIX)\<close>

fun os_path_join :: "string \<Rightarrow> string list \<Rightarrow> string" where
  "os_path_join a [] = a"
| "os_path_join a (b # p) =
     os_path_join
       (if b \<noteq> [] \<and> hd b = CHR ''/'' then b
        else if a = [] \<or> last a = CHR ''/'' then a @ b
        else a @ ''/'' @ b) p"

definition os_path_dirname :: "string \<Rightarrow> string" where
  "os_path_dirname p =
     (let head = rev (dropWhile (\<lambda>c. c \<noteq> CHR ''/'') (rev p))
      in if head \<noteq> [] \<and> \<not> list_all (\<lambda>c. c = CHR ''/'') head
         then rev (dropWhile (\<lambda>c. c = CHR ''/'') (rev head))
         else head)"

text \<open>The directories on the way to a path: every part that ends before a slash, and the path.\<close>

fun path_prefixes :: "string \<Rightarrow> string \<Rightarrow> string list" where
  "path_prefixes acc [] = (if acc = [] then [] else [rev acc])"
| "path_prefixes acc (c # cs) =
     (if c = CHR ''/'' \<and> acc \<noteq> [] \<and> hd acc \<noteq> CHR ''/'' then [rev acc] else []) @
     path_prefixes (c # acc) cs"

subsection \<open>The world outside the handler\<close>

text \<open>
  Every call that leaves the handler is recorded, in order, with its arguments.
  \<open>'i\<close> is the type of the processor's output, \<open>'a\<close> the type of an audio tensor.
\<close>

datatype ('i, 'a) call =
    Request_json
  | Call_processor "json list"
  | Call_to_cuda 'i
  | Call_generate 'i int
  | Call_now
  | Call_makedirs string
  | Call_cpu 'a
  | Call_squeeze 'a
  | Call_save string 'a int

text \<open>
  The state the handler can change: the directories and the files of the file system
  (a file holds the saved tensor and its sample rate), and the calls made so far.
\<close>

record ('i, 'a) world =
  dirs :: "string set"
  files :: "string \<rightharpoonup> 'a \<times> int"
  calls :: "('i, 'a) call list"

text \<open>The loaded model: \<^verbatim>\<open>model.generate\<close> and \<^verbatim>\<open>model.config.audio_encoder.sampling_rate\<close>.\<close>

record ('i, 'a) musicgen =
  generate :: "'i \<Rightarrow> int \<Rightarrow> exn + 'a"
  sampling_rate :: int

text \<open>
  What the handler finds around it. The module-level \<^verbatim>\<open>processor\<close> and \<^verbatim>\<open>model\<close> are
  \<open>None\<close> when loading failed. Each collaborator either returns or raises. The two
  faults stand for failures of the operating system that the file-system state does not
  explain (permissions, a full disk); \<open>save_error\<close> is the exception of the audio
  back end when the target cannot be created.
\<close>

record ('i, 'a) env =
  processor :: "(json list \<Rightarrow> exn + 'i) option"
  model :: "('i, 'a) musicgen option"
  cuda_is_available :: bool
  to_cuda :: "'i \<Rightarrow> exn + 'i"
  now :: datetime
  makedirs_fault :: "exn option"
  cpu :: "'a \<Rightarrow> exn + 'a"
  squeeze :: "'a \<Rightarrow> exn + 'a"
  save_fault :: "exn option"
  save_error :: exn

text \<open>\<^verbatim>\<open>request.json\<close>: the decoded body, or the exception of the decoder.\<close>

record request =
  request_json :: "exn + json"

record response =
  status_code :: nat
  body :: "(string \<times> json) list"

type_synonym ('w, 'x) action = "'w \<Rightarrow> (exn + 'x) \<times> 'w"

text \<open>Sequencing: an exception of the first action skips the rest.\<close>

definition and_then :: "('w, 'x) action \<Rightarrow> ('x \<Rightarrow> ('w, 'y) action) \<Rightarrow> ('w, 'y) action" where
  "and_then m f w = (case m w of (Inl e, w') \<Rightarrow> (Inl e, w') | (Inr x, w') \<Rightarrow> f x w')"

definition expr :: "exn + 'x \<Rightarrow> ('w, 'x) action" where
  "expr r w = (r, w)"

definition call :: "('i, 'a) call \<Rightarrow> exn + 'x \<Rightarrow> (('i, 'a) world, 'x) action" where
  "call c r w = (r, w\<lparr>calls := calls w @ [c]\<rparr>)"

text \<open>
  \<^verbatim>\<open>os.makedirs(name, exist_ok=True)\<close>: fails when the name, or a directory on the way to
  it, is a file; otherwise every directory on the way exists afterwards.
\<close>

definition os_makedirs :: "('i, 'a) env \<Rightarrow> string \<Rightarrow> (('i, 'a) world, unit) action" where
  "os_makedirs env name w =
     (let w' = w\<lparr>calls := calls w @ [Call_makedirs name]\<rparr>
      in case makedirs_fault env of
           Some e \<Rightarrow> (Inl e, w')
         | None \<Rightarrow>
             if files w name \<noteq> None
             then (Inl (Exn ''FileExistsError''
                          (''[Errno 17] File exists: '' @ py_repr name)), w')
             else if list_ex (\<lambda>q. files w q \<noteq> None) (path_prefixes [] name)
             then (Inl (Exn ''NotADirectoryError''
                          (''[Errno 20] Not a directory: '' @ py_repr name)), w')
             else (Inr (), w'\<lparr>dirs := dirs w \<union> set (path_prefixes [] name)\<rparr>))"

text \<open>
  \<^verbatim>\<open>torchaudio.save(filepath, tensor, sample_rate=rate)\<close>: needs the directory of the file,
  and no directory under the file's own name; it creates the file or replaces it.
\<close>

definition torchaudio_save ::
    "('i, 'a) env \<Rightarrow> string \<Rightarrow> 'a \<Rightarrow> int \<Rightarrow> (('i, 'a) world, unit) action" where
  "torchaudio_save env filepath tensor rate w =
     (let w' = w\<lparr>calls := calls w @ [Call_save filepath tensor rate]\<rparr>
      in case save_fault env of
           Some e \<Rightarrow> (Inl e, w')
         | None \<Rightarrow>
             if (os_path_dirname filepath \<noteq> [] \<and> os_path_dirname filepath \<notin> dirs w) \<or>
                filepath \<in> dirs w
             then (Inl (save_error env), w')
             else (Inr (), w'\<lparr>files := (files w)(filepath \<mapsto> (tensor, rate))\<rparr>))"

definition jsonify :: "(string \<times> json) list \<Rightarrow> nat \<Rightarrow> response" where
  "jsonify d code = \<lparr>status_code = code, body = d\<rparr>"

section \<open>The handler of POST /generate\<close>

text \<open>
  The body of the \<^verbatim>\<open>try\<close> block of \<^verbatim>\<open>generate_music\<close>, statement by statement. The calls
  of \<^verbatim>\<open>logger\<close> are left out: they write to the log of the process and nothing reads it.
\<close>

definition generate_music_try ::
    "('i, 'a) env \<Rightarrow> (json list \<Rightarrow> exn + 'i) \<Rightarrow> ('i, 'a) musicgen \<Rightarrow> request \<Rightarrow>
     (('i, 'a) world, response) action" where
  "generate_music_try env proc mdl req =
     and_then (call Request_json (request_json req)) (\<lambda>j.
     and_then (expr (json_get j ''description'' (JStr ''''))) (\<lambda>description.
     and_then (call Request_json (request_json req)) (\<lambda>j'.
     and_then (expr (json_get j' ''duration'' (JInt 10))) (\<lambda>d.
     and_then (expr (py_int d)) (\<lambda>duration.
     and_then (call (Call_processor [description]) (proc [description])) (\<lambda>inputs.
     and_then (if cuda_is_available env
               then call (Call_to_cuda inputs) (to_cuda env inputs)
               else expr (Inr inputs)) (\<lambda>inputs.
     and_then (call (Call_generate inputs (duration * 50))
                 (generate mdl inputs (duration * 50))) (\<lambda>audio_values.
     and_then (call Call_now (Inr (now env))) (\<lambda>t.
       let timestamp = strftime t;
           filename = ''generated_music_'' @ timestamp @ ''.wav'';
           filepath = os_path_join ''static'' [''generated'', filename]
       in
     and_then (os_makedirs env (os_path_dirname filepath)) (\<lambda>_.
       let rate = sampling_rate mdl
       in
     and_then (call (Call_cpu audio_values) (cpu env audio_values)) (\<lambda>audio_values.
     and_then (call (Call_squeeze audio_values) (squeeze env audio_values)) (\<lambda>squeezed.
     and_then (torchaudio_save env filepath squeezed rate) (\<lambda>_.
       expr (Inr (jsonify [(''status'', JStr ''success''),
                           (''file_path'', JStr (''/static/generated/'' @ filename))] 200))
     )))))))))))))"

text \<open>
  \<^verbatim>\<open>generate_music\<close>: the guard on the two globals, then the \<^verbatim>\<open>try\<close> block with its
  \<^verbatim>\<open>except Exception\<close>.
\<close>

definition generate_music ::
    "('i, 'a) env \<Rightarrow> request \<Rightarrow> ('i, 'a) world \<Rightarrow> response \<times> ('i, 'a) world" where
  "generate_music env req w =
     (case (model env, processor env) of
        (Some mdl, Some proc) \<Rightarrow>
          (case generate_music_try env proc mdl req w of
             (Inr r, w') \<Rightarrow> (r, w')
           | (Inl e, w') \<Rightarrow>
               (jsonify [(''status'', JStr ''error''), (''message'', JStr (exn_str e))] 500, w'))
      | _ \<Rightarrow>
          (jsonify [(''status'', JStr ''error''),
                    (''message'', JStr ''Model not initialized properly'')] 500, w))"

text \<open>The calls made between two states of the world.\<close>

definition calls_since :: "('i, 'a) world \<Rightarrow> ('i, 'a) world \<Rightarrow> ('i, 'a) call list" where
  "calls_since w w' = drop (length (calls w)) (calls w')"

section \<open>The three steps of the try block\<close>

text \<open>
  The same statements, cut where the specification cuts them: reading the input
  (lines 44 and 45), calling the processor and the model (lines 51 to 66), and writing
  the file (lines 69 to 86). Lemma \<open>try_steps\<close> shows that \<open>generate_music_try\<close> is
  their sequence; the proofs go step by step.
\<close>

definition validate :: "request \<Rightarrow> (('i, 'a) world, json \<times> int) action" where
  "validate req =
     and_then (call Request_json (request_json req)) (\<lambda>j.
     and_then (expr (json_get j ''description'' (JStr ''''))) (\<lambda>description.
     and_then (call Request_json (request_json req)) (\<lambda>j'.
     and_then (expr (json_get j' ''duration'' (JInt 10))) (\<lambda>d.
     and_then (expr (py_int d)) (\<lambda>duration.
       expr (Inr (description, duration)))))))"

definition synthesize ::
    "('i, 'a) env \<Rightarrow> (json list \<Rightarrow> exn + 'i) \<Rightarrow> ('i, 'a) musicgen \<Rightarrow> json \<Rightarrow> int \<Rightarrow>
     (('i, 'a) world, 'a) action" where
  "synthesize env proc mdl description duration =
     and_then (call (Call_processor [description]) (proc [description])) (\<lambda>inputs.
     and_then (if cuda_is_available env
               then call (Call_to_cuda inputs) (to_cuda env inputs)
               else expr (Inr inputs)) (\<lambda>inputs.
       call (Call_generate inputs (duration * 50)) (generate mdl inputs (duration * 50))))"

definition persist ::
    "('i, 'a) env \<Rightarrow> ('i, 'a) musicgen \<Rightarrow> 'a \<Rightarrow> (('i, 'a) world, response) action" where
  "persist env mdl audio_values =
     and_then (call Call_now (Inr (now env))) (\<lambda>t.
       let timestamp = strftime t;
           filename = ''generated_music_'' @ timestamp @ ''.wav'';
           filepath = os_path_join ''static'' [''generated'', filename]
       in
     and_then (os_makedirs env (os_path_dirname filepath)) (\<lambda>_.
       let rate = sampling_rate mdl
       in
     and_then (call (Call_cpu audio_values) (cpu env audio_values)) (\<lambda>audio_values.
     and_then (call (Call_squeeze audio_values) (squeeze env audio_values)) (\<lambda>squeezed.
     and_then (torchaudio_save env filepath squeezed rate) (\<lambda>_.
       expr (Inr (jsonify [(''status'', JStr ''success''),
                           (''file_path'', JStr (''/static/generated/'' @ filename))] 200))
     )))))"

section \<open>Notions used in the statements\<close>

text \<open>The inputs that reach the model: moved to the GPU when there is one.\<close>

definition moved :: "('i, 'a) env \<Rightarrow> 'i \<Rightarrow> exn + 'i" where
  "moved env inputs = (if cuda_is_available env then to_cuda env inputs else Inr inputs)"

definition is_save :: "('i, 'a) call \<Rightarrow> bool" where
  "is_save c = (case c of Call_save _ _ _ \<Rightarrow> True | _ \<Rightarrow> False)"

definition is_generate :: "('i, 'a) call \<Rightarrow> bool" where
  "is_generate c = (case c of Call_generate _ _ \<Rightarrow> True | _ \<Rightarrow> False)"

text \<open>Two time stamps of the same second: they agree on every field but the microsecond.\<close>

definition same_second :: "datetime \<Rightarrow> datetime \<Rightarrow> bool" where
  "same_second s t =
     (year s = year t \<and> month s = month t \<and> day s = day t \<and>
      hour s = hour t \<and> minute s = minute t \<and> second s = second t)"

definition filename_of :: "datetime \<Rightarrow> string" where
  "filename_of t = ''generated_music_'' @ strftime t @ ''.wav''"

text \<open>The answer of the \<^verbatim>\<open>except\<close> branch.\<close>

definition error_response :: "exn \<Rightarrow> response" where
  "error_response e =
     \<lparr>status_code = 500, body = [(''status'', JStr ''error''), (''message'', JStr (exn_str e))]\<rparr>"

section \<open>A concrete setting\<close>

definition example_now :: datetime where
  "example_now =
     \<lparr>year = 2024, month = 3, day = 9, hour = 7, minute = 5, second = 59,
      microsecond = 120000\<rparr>"

definition example_model :: "(nat, nat) musicgen" where
  "example_model = \<lparr>generate = (\<lambda>i n. Inr (nat n)), sampling_rate = 32000\<rparr>"

definition example_processor :: "json list \<Rightarrow> exn + nat" where
  "example_processor text = Inr (length text)"

definition example_env :: "(nat, nat) env" where
  "example_env =
     \<lparr>processor = Some example_processor, model = Some example_model,
      cuda_is_available = False, to_cuda = Inr, now = example_now,
      makedirs_fault = None, cpu = Inr, squeeze = Inr, save_fault = None,
      save_error = Exn ''RuntimeError'' ''cannot open the file''\<rparr>"

definition example_world :: "(nat, nat) world" where
  "example_world = \<lparr>dirs = {}, files = Map.empty, calls = []\<rparr>"

definition request_of :: "(string \<times> json) list \<Rightarrow> request" where
  "request_of kv = \<lparr>request_json = Inr (JObj kv)\<rparr>"

text \<open>A request with an empty description and a duration of two seconds, and the same with four.\<close>

definition example_request :: request where
  "example_request = request_of [(''description'', JStr ''''), (''duration'', JInt 2)]"

definition double_request :: request where
  "double_request = request_of [(''description'', JStr ''''), (''duration'', JInt 4)]"

definition negative_request :: request where
  "negative_request = request_of [(''duration'', JInt (- 3))]"

definition bad_request :: request where
  "bad_request = request_of [(''duration'', JStr ''abc'')]"

text \<open>The process after a failed start, a model that runs out of memory, a later clock.\<close>

definition broken_env :: "(nat, nat) env" where
  "broken_env = example_env\<lparr>processor := None, model := None\<rparr>"

definition out_of_memory :: exn where
  "out_of_memory = Exn ''RuntimeError'' ''CUDA out of memory''"

definition failing_model :: "(nat, nat) musicgen" where
  "failing_model = \<lparr>generate = (\<lambda>i n. Inl out_of_memory), sampling_rate = 32000\<rparr>"

definition failing_env :: "(nat, nat) env" where
  "failing_env = example_env\<lparr>model := Some failing_model\<rparr>"

definition later_env :: "(nat, nat) env" where
  "later_env = example_env\<lparr>now := example_now\<lparr>minute := 6, second := 0\<rparr>\<rparr>"

definition example_response :: response where
  "example_response =
     \<lparr>status_code = 200,
      body = [(''status'', JStr ''success''),
              (''file_path'', JStr ''/static/generated/generated_music_20240309_070559.wav'')]\<rparr>"

text \<open>The response and the world after a request, as the handler computes them.\<close>

definition response_to :: "('i, 'a) env \<Rightarrow> request \<Rightarrow> ('i, 'a) world \<Rightarrow> response" where
  "response_to env req w = fst (generate_music env req w)"

definition world_after :: "('i, 'a) env \<Rightarrow> request \<Rightarrow> ('i, 'a) world \<Rightarrow> ('i, 'a) world" where
  "world_after env req w = snd (generate_music env req w)"

text \<open>The example clock half a second later, and a request with a description.\<close>

definition colliding_env :: "(nat, nat) env" where
  "colliding_env = example_env\<lparr>now := example_now\<lparr>microsecond := 999999\<rparr>\<rparr>"

definition piano_request :: request where
  "piano_request = request_of [(''description'', JStr ''calm piano''), (''duration'', JInt 2)]"

section \<open>Runs that agree on the file system\<close>

text \<open>
  Two worlds with the same directories and files, and two actions that return the same
  and keep such worlds so. The call trace is left out of the comparison.
\<close>

definition same_fs :: "('i, 'a) world \<Rightarrow> ('i, 'a) world \<Rightarrow> bool" where
  "same_fs w w' = (dirs w = dirs w' \<and> files w = files w')"

definition fs_sim ::
    "(('i, 'a) world, 'x) action \<Rightarrow> (('i, 'a) world, 'x) action \<Rightarrow> bool" where
  "fs_sim m m' =
     (\<forall>w w'. same_fs w w' \<longrightarrow> fst (m w) = fst (m' w') \<and> same_fs (snd (m w)) (snd (m' w')))"

section \<open>Lemmas\<close>

subsection \<open>Sequencing\<close>

lemma and_then_assoc: "and_then (and_then m f) g = and_then m (\<lambda>x. and_then (f x) g)"
  by (rule ext) (simp add: and_then_def split: prod.splits sum.splits)

lemma and_then_return: "and_then (expr (Inr x)) f = f x"
  by (rule ext) (simp add: and_then_def expr_def)

lemma try_steps:
  "generate_music_try env proc mdl req =
     and_then (validate req) (\<lambda>(description, duration).
     and_then (synthesize env proc mdl description duration) (persist env mdl))"
  unfolding generate_music_try_def validate_def synthesize_def persist_def
  by (simp add: and_then_assoc and_then_return)

lemma and_then_cases:
  assumes "and_then m f w = (res, w')"
  obtains (raise) e where "m w = (Inl e, w')" and "res = Inl e"
        | (cont) x w1 where "m w = (Inr x, w1)" and "f x w1 = (res, w')"
  using assms by (auto simp: and_then_def split: prod.splits sum.splits)

lemma and_then_Inr:
  assumes "and_then m f w = (Inr y, w')"
  obtains x w1 where "m w = (Inr x, w1)" and "f x w1 = (Inr y, w')"
  using assms by (auto simp: and_then_def split: prod.splits sum.splits)

lemma expr_eq: "expr r w = (res, w') \<longleftrightarrow> r = res \<and> w' = w"
  by (auto simp: expr_def)

subsection \<open>Paths and time stamps\<close>

lemma digit_not_slash: "digit n \<noteq> CHR ''/''"
proof -
  have "(48 + n mod 10) mod 256 = 48 + n mod 10" by simp
  moreover have "48 + n mod 10 \<noteq> (47::nat)" by simp
  ultimately show ?thesis
    by (simp add: digit_def char_of_eq_iff take_bit_eq_mod)
qed

lemma strftime_no_slash: "CHR ''/'' \<notin> set (strftime t)"
  using digit_not_slash [symmetric]
  by (simp add: strftime_def pad2_def pad4_def)

lemma filepath_eq:
  "os_path_join ''static'' [''generated'', filename_of t] = ''static/generated/'' @ filename_of t"
  by (simp add: filename_of_def)

lemma dirname_eq: "os_path_dirname (''static/generated/'' @ filename_of t) = ''static/generated''"
proof -
  have "dropWhile (\<lambda>c. c \<noteq> CHR ''/'') (rev (strftime t) @ rev ''static/generated/generated_music_'')
        = dropWhile (\<lambda>c. c \<noteq> CHR ''/'') (rev ''static/generated/generated_music_'')"
    using strftime_no_slash [of t] by (intro dropWhile_append2) auto
  then show ?thesis
    by (simp add: os_path_dirname_def filename_of_def)
qed

lemma prefixes_eq: "path_prefixes [] ''static/generated'' = [''static'', ''static/generated'']"
  by simp

lemma of_char_digit: "(of_char (digit n) :: nat) = 48 + n mod 10"
  by (simp add: digit_def)

lemma is_digit_digit: "is_digit (digit n)"
  by (simp add: is_digit_def of_char_digit)

lemma digit_val_digit: "digit_val (digit n) = n mod 10"
  by (simp add: digit_val_def of_char_digit)

lemma digits_pad2: "n < 100 \<Longrightarrow> digits (pad2 n) = Some n"
  by (simp add: digits_def pad2_def is_digit_digit digit_val_digit)

lemma four_digits:
  fixes n a b c n0 a0 b0 :: nat
  assumes "n = a * 10 + n0" and "a = b * 10 + a0" and "b = c * 10 + b0"
  shows "((c * 10 + b0) * 10 + a0) * 10 + n0 = n"
  using assms by simp

lemma pad4_value:
  fixes n :: nat
  assumes "n < 10000"
  shows "((n div 1000 mod 10 * 10 + n div 100 mod 10) * 10 + n div 10 mod 10) * 10 + n mod 10 = n"
proof -
  have b: "n div 100 = n div 10 div 10" and c: "n div 1000 = n div 10 div 10 div 10"
    by (simp_all add: div_mult2_eq)
  from assms have "n div 1000 < 10"
    by (simp add: less_mult_imp_div_less)
  then have small: "n div 1000 mod 10 = n div 10 div 10 div 10"
    by (simp add: c)
  show ?thesis
    unfolding small b
    by (rule four_digits) simp_all
qed

lemma digits_pad4_unfold:
  "digits (pad4 n) =
     Some (((n div 1000 mod 10 * 10 + n div 100 mod 10) * 10 + n div 10 mod 10) * 10 + n mod 10)"
  by (simp only: digits_def pad4_def list.case is_digit_digit digit_val_digit if_True
      more_digits.simps)

lemma digits_pad4: "n < 10000 \<Longrightarrow> digits (pad4 n) = Some n"
  by (simp only: digits_pad4_unfold pad4_value)

lemma strftime_fields:
  "take 4 (strftime t) = pad4 (year t)"
  "take 2 (drop 4 (strftime t)) = pad2 (month t)"
  "take 2 (drop 6 (strftime t)) = pad2 (day t)"
  "take 2 (drop 9 (strftime t)) = pad2 (hour t)"
  "take 2 (drop 11 (strftime t)) = pad2 (minute t)"
  "take 2 (drop 13 (strftime t)) = pad2 (second t)"
  by (simp_all add: strftime_def pad2_def pad4_def)


lemma strftime_read:
  assumes "in_range t"
  shows "digits (take 4 (strftime t)) = Some (year t)"
    and "digits (take 2 (drop 4 (strftime t))) = Some (month t)"
    and "digits (take 2 (drop 6 (strftime t))) = Some (day t)"
    and "digits (take 2 (drop 9 (strftime t))) = Some (hour t)"
    and "digits (take 2 (drop 11 (strftime t))) = Some (minute t)"
    and "digits (take 2 (drop 13 (strftime t))) = Some (second t)"
  using assms unfolding strftime_fields in_range_def
  by (simp_all add: digits_pad2 digits_pad4)

lemma strftime_same_second:
  assumes "in_range s" and "in_range t"
  shows "strftime s = strftime t \<longleftrightarrow> same_second s t"
proof
  assume eq: "strftime s = strftime t"
  from strftime_read [OF assms(1)] strftime_read [OF assms(2)]
  show "same_second s t"
    unfolding eq same_second_def by simp
next
  assume "same_second s t"
  then show "strftime s = strftime t"
    by (simp add: same_second_def strftime_def)
qed

subsection \<open>The steps, one by one\<close>

lemma call_proj:
  "call c r w = (res, w') \<Longrightarrow>
     r = res \<and> calls w' = calls w @ [c] \<and> dirs w' = dirs w \<and> files w' = files w"
  by (auto simp: call_def)

lemma validate_Inr:
  assumes "validate req w = (Inr (desc, d), w')"
  shows "\<exists>j dv. request_json req = Inr j \<and> json_get j ''description'' (JStr '''') = Inr desc \<and>
           json_get j ''duration'' (JInt 10) = Inr dv \<and> py_int dv = Inr d \<and>
           calls w' = calls w @ [Request_json, Request_json] \<and>
           dirs w' = dirs w \<and> files w' = files w"
  using assms unfolding validate_def
  by (elim and_then_Inr) (auto simp: expr_eq dest!: call_proj)

lemma validate_Inl:
  assumes "validate req w = (Inl e, w')"
  shows "\<exists>cs. calls w' = calls w @ cs \<and> set cs \<subseteq> {Request_json} \<and>
           dirs w' = dirs w \<and> files w' = files w"
proof -
  have one: "\<exists>cs. calls w @ [Request_json] = calls w @ cs \<and> set cs \<subseteq> {Request_json}"
    by (rule exI [of _ "[Request_json]"]) simp
  have two: "\<exists>cs. calls w @ [Request_json, Request_json] = calls w @ cs \<and>
               set cs \<subseteq> {Request_json}"
    by (rule exI [of _ "[Request_json, Request_json]"]) simp
  from assms show ?thesis
    unfolding validate_def
    by (elim and_then_cases) (use one two in \<open>auto simp: expr_eq dest!: call_proj\<close>)
qed

lemma validate_ok:
  assumes "request_json req = Inr j"
    and "json_get j ''description'' (JStr '''') = Inr desc"
    and "json_get j ''duration'' (JInt 10) = Inr dv"
    and "py_int dv = Inr d"
  shows "\<exists>w1. validate req w = (Inr (desc, d), w1)"
  using assms by (simp add: validate_def and_then_def call_def expr_def)

lemma validate_int_fails:
  assumes "request_json req = Inr j"
    and "json_get j ''description'' (JStr '''') = Inr desc"
    and "json_get j ''duration'' (JInt 10) = Inr dv"
    and "py_int dv = Inl e"
  shows "validate req w = (Inl e, w\<lparr>calls := calls w @ [Request_json, Request_json]\<rparr>)"
  using assms by (simp add: validate_def and_then_def call_def expr_def)

lemma synthesize_run:
  assumes "synthesize env proc mdl desc d w = (res, w')"
  shows "\<exists>cs. calls w' = calls w @ Call_processor [desc] # cs \<and>
           dirs w' = dirs w \<and> files w' = files w \<and>
           (\<forall>c \<in> set cs. \<not> is_save c) \<and>
           (\<forall>i n. Call_generate i n \<in> set cs \<longrightarrow>
              n = d * 50 \<and> generate mdl i n = res \<and>
              (\<exists>inp. proc [desc] = Inr inp \<and> moved env inp = Inr i)) \<and>
           (\<forall>inp inp'. proc [desc] = Inr inp \<longrightarrow> moved env inp = Inr inp' \<longrightarrow>
              Call_generate inp' (d * 50) \<in> set cs \<and> generate mdl inp' (d * 50) = res)"
proof (cases "proc [desc]")
  case (Inl e)
  with assms have "calls w' = calls w @ Call_processor [desc] # []"
    and "dirs w' = dirs w" and "files w' = files w"
    by (auto simp: synthesize_def and_then_def call_def)
  with Inl show ?thesis by (intro exI [of _ "[]"]) simp
next
  case inp: (Inr inp)
  show ?thesis
  proof (cases "moved env inp")
    case (Inl e)
    then have "cuda_is_available env" and "to_cuda env inp = Inl e"
      by (auto simp: moved_def split: if_splits)
    with assms inp have "calls w' = calls w @ Call_processor [desc] # [Call_to_cuda inp]"
      and "dirs w' = dirs w" and "files w' = files w"
      by (auto simp: synthesize_def and_then_def call_def)
    with inp Inl show ?thesis
      by (intro exI [of _ "[Call_to_cuda inp]"]) (simp add: is_save_def)
  next
    case (Inr inp')
    with assms inp
    have "generate mdl inp' (d * 50) = res"
      and "calls w' = calls w @ Call_processor [desc] #
             ((if cuda_is_available env then [Call_to_cuda inp] else []) @
              [Call_generate inp' (d * 50)])"
      and "dirs w' = dirs w" and "files w' = files w"
      by (auto simp: synthesize_def moved_def and_then_def call_def expr_def split: if_splits)
    with inp Inr show ?thesis
      by (intro exI [of _ "(if cuda_is_available env then [Call_to_cuda inp] else []) @
                  [Call_generate inp' (d * 50)]"])
         (auto simp: is_save_def)
  qed
qed

lemma persist_alt:
  "persist env mdl au =
     and_then (call Call_now (Inr (now env))) (\<lambda>t.
     and_then (os_makedirs env ''static/generated'') (\<lambda>_.
     and_then (call (Call_cpu au) (cpu env au)) (\<lambda>a1.
     and_then (call (Call_squeeze a1) (squeeze env a1)) (\<lambda>a2.
     and_then (torchaudio_save env (''static/generated/'' @ filename_of t) a2 (sampling_rate mdl))
       (\<lambda>_.
       expr (Inr \<lparr>status_code = 200,
                  body = [(''status'', JStr ''success''),
                          (''file_path'', JStr (''/static/generated/'' @ filename_of t))]\<rparr>)
     )))))"
  unfolding persist_def Let_def filepath_eq dirname_eq jsonify_def filename_of_def [symmetric]
  by (rule refl)

lemma makedirs_eq:
  "os_makedirs env ''static/generated'' w = (res, w') \<Longrightarrow>
     calls w' = calls w @ [Call_makedirs ''static/generated''] \<and> files w' = files w \<and>
     (case res of
        Inl e \<Rightarrow> dirs w' = dirs w
      | Inr u \<Rightarrow> dirs w' = dirs w \<union> {''static'', ''static/generated''})"
  unfolding os_makedirs_def prefixes_eq Let_def
  by (auto split: option.splits if_splits)

lemma save_eq:
  "torchaudio_save env p a s w = (res, w') \<Longrightarrow>
     calls w' = calls w @ [Call_save p a s] \<and> dirs w' = dirs w \<and>
     (case res of
        Inl e \<Rightarrow> files w' = files w
      | Inr u \<Rightarrow> files w' = (files w)(p \<mapsto> (a, s)))"
  unfolding torchaudio_save_def Let_def
  by (auto split: option.splits if_splits)

lemma persist_Inr:
  assumes "persist env mdl au w = (Inr r, w')"
  shows "\<exists>a1 a2. cpu env au = Inr a1 \<and> squeeze env a1 = Inr a2 \<and>
           r = \<lparr>status_code = 200,
                body = [(''status'', JStr ''success''),
                        (''file_path'', JStr (''/static/generated/'' @ filename_of (now env)))]\<rparr> \<and>
           dirs w' = dirs w \<union> {''static'', ''static/generated''} \<and>
           files w' = (files w)(''static/generated/'' @ filename_of (now env) \<mapsto>
                                  (a2, sampling_rate mdl)) \<and>
           calls w' = calls w @
             [Call_now, Call_makedirs ''static/generated'', Call_cpu au, Call_squeeze a1,
              Call_save (''static/generated/'' @ filename_of (now env)) a2 (sampling_rate mdl)]"
  using assms unfolding persist_alt
  by (elim and_then_Inr) (auto simp: expr_eq dest!: call_proj makedirs_eq save_eq)

lemma persist_run:
  assumes "persist env mdl au w = (res, w')"
  shows "\<exists>cs. calls w' = calls w @ cs \<and> (\<forall>c \<in> set cs. \<not> is_generate c)"
  using assms unfolding persist_alt
  by (elim and_then_cases) (auto simp: expr_eq is_generate_def dest!: call_proj makedirs_eq save_eq)

subsection \<open>Whole runs\<close>

lemma try_cases:
  assumes "generate_music_try env proc mdl req w = (res, w')"
  obtains
    (validate_raised) e where "validate req w = (Inl e, w')" and "res = Inl e"
  | (synthesize_raised) desc d w1 e where "validate req w = (Inr (desc, d), w1)"
      and "synthesize env proc mdl desc d w1 = (Inl e, w')" and "res = Inl e"
  | (persisting) desc d w1 au w2 where "validate req w = (Inr (desc, d), w1)"
      and "synthesize env proc mdl desc d w1 = (Inr au, w2)"
      and "persist env mdl au w2 = (res, w')"
proof -
  from assms [unfolded try_steps] show thesis
  proof (cases rule: and_then_cases)
    case (raise e)
    then show thesis using validate_raised by blast
  next
    case (cont x w1)
    obtain desc d where x: "x = (desc, d)" by (cases x)
    from cont(2) x
    have "and_then (synthesize env proc mdl desc d) (persist env mdl) w1 = (res, w')"
      by simp
    then show thesis
    proof (cases rule: and_then_cases)
      case (raise e)
      with cont(1) x show thesis using synthesize_raised by blast
    next
      case inner: (cont au w2)
      with cont(1) x show thesis using persisting by blast
    qed
  qed
qed

lemma run_try:
  assumes "model env = Some mdl" and "processor env = Some proc"
    and "generate_music env req w = (r, w')"
  obtains res where "generate_music_try env proc mdl req w = (res, w')"
    and "r = (case res of Inr r' \<Rightarrow> r' | Inl e \<Rightarrow> error_response e)"
  using assms
  by (cases "generate_music_try env proc mdl req w")
     (auto simp: generate_music_def jsonify_def error_response_def split: sum.splits)

lemma run_uninitialized:
  assumes "model env = None \<or> processor env = None"
  shows "generate_music env req w =
           (\<lparr>status_code = 500,
             body = [(''status'', JStr ''error''),
                     (''message'', JStr ''Model not initialized properly'')]\<rparr>, w)"
  using assms by (auto simp: generate_music_def jsonify_def split: option.splits)

lemma calls_since_append: "calls w' = calls w @ cs \<Longrightarrow> calls_since w w' = cs"
  by (simp add: calls_since_def)

lemma generate_call_origin:
  assumes run: "generate_music_try env proc mdl req w = (res, w')"
    and gen: "Call_generate i n \<in> set (calls_since w w')"
  shows "\<exists>j dv d. request_json req = Inr j \<and> json_get j ''duration'' (JInt 10) = Inr dv \<and>
           py_int dv = Inr d \<and> n = d * 50 \<and>
           (\<forall>e. generate mdl i n = Inl e \<longrightarrow>
              res = Inl e \<and> files w' = files w \<and> dirs w' = dirs w \<and>
              (\<forall>c \<in> set (calls_since w w'). \<not> is_save c))"
  using run
proof (cases rule: try_cases)
  case (validate_raised e)
  from validate_Inl [OF validate_raised(1)] obtain cs
    where "calls w' = calls w @ cs" and "set cs \<subseteq> {Request_json}"
    by blast
  with gen show ?thesis
    by (auto simp: calls_since_append)
next
  case (synthesize_raised desc d w1 e)
  from validate_Inr [OF synthesize_raised(1)] obtain j dv
    where v: "request_json req = Inr j" "json_get j ''duration'' (JInt 10) = Inr dv"
      "py_int dv = Inr d" "calls w1 = calls w @ [Request_json, Request_json]"
      "dirs w1 = dirs w" "files w1 = files w"
    by blast
  from synthesize_run [OF synthesize_raised(2)] obtain cs
    where s: "calls w' = calls w1 @ Call_processor [desc] # cs"
      "dirs w' = dirs w1" "files w' = files w1" "\<forall>c \<in> set cs. \<not> is_save c"
      "\<forall>i n. Call_generate i n \<in> set cs \<longrightarrow> n = d * 50 \<and> generate mdl i n = Inl e"
    by blast
  from v(4) s(1) have since: "calls_since w w' = [Request_json, Request_json, Call_processor [desc]] @ cs"
    by (simp add: calls_since_def)
  with gen have "Call_generate i n \<in> set cs" by simp
  with s(5) have "n = d * 50" and "generate mdl i n = Inl e" by blast+
  with v s since synthesize_raised(3) show ?thesis
    by (auto simp: is_save_def)
next
  case (persisting desc d w1 au w2)
  from validate_Inr [OF persisting(1)] obtain j dv
    where v: "request_json req = Inr j" "json_get j ''duration'' (JInt 10) = Inr dv"
      "py_int dv = Inr d" "calls w1 = calls w @ [Request_json, Request_json]"
    by blast
  from synthesize_run [OF persisting(2)] obtain cs
    where s: "calls w2 = calls w1 @ Call_processor [desc] # cs"
      "\<forall>i n. Call_generate i n \<in> set cs \<longrightarrow> n = d * 50 \<and> generate mdl i n = Inr au"
    by blast
  from persist_run [OF persisting(3)] obtain ps
    where p: "calls w' = calls w2 @ ps" "\<forall>c \<in> set ps. \<not> is_generate c"
    by blast
  from v(4) s(1) p(1)
  have "calls_since w w' = [Request_json, Request_json, Call_processor [desc]] @ cs @ ps"
    by (simp add: calls_since_def)
  with gen p(2) have "Call_generate i n \<in> set cs"
    by (auto simp: is_generate_def)
  with s(2) have "n = d * 50" and "generate mdl i n = Inr au" by blast+
  with v show ?thesis by auto
qed

lemma run_initialized:
  assumes "generate_music env req w = (r, w')" and "calls_since w w' \<noteq> []"
  obtains mdl proc where "model env = Some mdl" and "processor env = Some proc"
proof (cases "model env = None \<or> processor env = None")
  case True
  from run_uninitialized [OF True, of req w] assms show ?thesis
    by (simp add: calls_since_def)
next
  case False
  then show ?thesis using that by auto
qed

lemma generate_call_budget:
  assumes "generate_music env req w = (r, w')"
    and "request_json req = Inr j"
    and "json_get j ''duration'' (JInt 10) = Inr dv"
    and "py_int dv = Inr d"
    and "Call_generate i n \<in> set (calls_since w w')"
  shows "n = d * 50"
proof -
  from assms(5) have "calls_since w w' \<noteq> []" by auto
  with assms(1) obtain mdl proc
    where mdl: "model env = Some mdl" and proc: "processor env = Some proc"
    by (rule run_initialized)
  from run_try [OF mdl proc assms(1)] obtain res
    where "generate_music_try env proc mdl req w = (res, w')"
    by blast
  from generate_call_origin [OF this assms(5)] assms(2,3,4) show ?thesis
    by auto
qed

lemma try_success:
  assumes "generate_music_try env proc mdl req w = (Inr r, w')"
  shows "\<exists>j desc dv d au a1 a2 cs.
           request_json req = Inr j \<and> json_get j ''description'' (JStr '''') = Inr desc \<and>
           json_get j ''duration'' (JInt 10) = Inr dv \<and> py_int dv = Inr d \<and>
           cpu env au = Inr a1 \<and> squeeze env a1 = Inr a2 \<and>
           r = \<lparr>status_code = 200,
                body = [(''status'', JStr ''success''),
                        (''file_path'', JStr (''/static/generated/'' @ filename_of (now env)))]\<rparr> \<and>
           dirs w' = dirs w \<union> {''static'', ''static/generated''} \<and>
           files w' = (files w)(''static/generated/'' @ filename_of (now env) \<mapsto>
                                  (a2, sampling_rate mdl)) \<and>
           calls_since w w' =
             [Request_json, Request_json, Call_processor [desc]] @ cs @
             [Call_now, Call_makedirs ''static/generated'', Call_cpu au, Call_squeeze a1,
              Call_save (''static/generated/'' @ filename_of (now env)) a2 (sampling_rate mdl)] \<and>
           (\<forall>c \<in> set cs. \<not> is_save c)"
  using assms
proof (cases rule: try_cases)
  case (persisting desc d w1 au w2)
  from validate_Inr [OF persisting(1)] obtain j dv
    where v: "request_json req = Inr j" "json_get j ''description'' (JStr '''') = Inr desc"
      "json_get j ''duration'' (JInt 10) = Inr dv"
      "py_int dv = Inr d" "calls w1 = calls w @ [Request_json, Request_json]"
      "dirs w1 = dirs w" "files w1 = files w"
    by blast
  from synthesize_run [OF persisting(2)] obtain cs
    where s: "calls w2 = calls w1 @ Call_processor [desc] # cs"
      "dirs w2 = dirs w1" "files w2 = files w1" "\<forall>c \<in> set cs. \<not> is_save c"
    by blast
  from persist_Inr [OF persisting(3)] obtain a1 a2
    where p: "cpu env au = Inr a1" "squeeze env a1 = Inr a2"
      "r = \<lparr>status_code = 200,
                body = [(''status'', JStr ''success''),
                        (''file_path'', JStr (''/static/generated/'' @ filename_of (now env)))]\<rparr>"
      "dirs w' = dirs w2 \<union> {''static'', ''static/generated''}"
      "files w' = (files w2)(''static/generated/'' @ filename_of (now env) \<mapsto>
                                  (a2, sampling_rate mdl))"
      "calls w' = calls w2 @
             [Call_now, Call_makedirs ''static/generated'', Call_cpu au, Call_squeeze a1,
              Call_save (''static/generated/'' @ filename_of (now env)) a2 (sampling_rate mdl)]"
    by blast
  from v(5) s(1) p(6)
  have "calls_since w w' =
             [Request_json, Request_json, Call_processor [desc]] @ cs @
             [Call_now, Call_makedirs ''static/generated'', Call_cpu au, Call_squeeze a1,
              Call_save (''static/generated/'' @ filename_of (now env)) a2 (sampling_rate mdl)]"
    by (simp add: calls_since_def)
  with v s p show ?thesis
    by (intro exI [of _ j] exI [of _ desc] exI [of _ dv] exI [of _ d] exI [of _ au]
        exI [of _ a1] exI [of _ a2] exI [of _ cs]) simp
qed simp_all

lemma run_success:
  assumes "generate_music env req w = (r, w')" and "status_code r = 200"
  obtains mdl proc where "model env = Some mdl" and "processor env = Some proc"
    and "generate_music_try env proc mdl req w = (Inr r, w')"
proof (cases "model env = None \<or> processor env = None")
  case True
  from run_uninitialized [OF True, of req w] assms show ?thesis
    by auto
next
  case False
  then obtain mdl proc where mp: "model env = Some mdl" "processor env = Some proc"
    by auto
  from run_try [OF mp assms(1)] obtain res
    where "generate_music_try env proc mdl req w = (res, w')"
      and "r = (case res of Inr r' \<Rightarrow> r' | Inl e \<Rightarrow> error_response e)"
    by blast
  with assms(2) mp that show ?thesis
    by (cases res) (auto simp: error_response_def)
qed

lemma persist_unfold:
  "persist env mdl au w =
     and_then (os_makedirs env ''static/generated'') (\<lambda>_.
     and_then (call (Call_cpu au) (cpu env au)) (\<lambda>a1.
     and_then (call (Call_squeeze a1) (squeeze env a1)) (\<lambda>a2.
     and_then (torchaudio_save env (''static/generated/'' @ filename_of (now env)) a2
                 (sampling_rate mdl))
       (\<lambda>_.
       expr (Inr \<lparr>status_code = 200,
                  body = [(''status'', JStr ''success''),
                          (''file_path'',
                           JStr (''/static/generated/'' @ filename_of (now env)))]\<rparr>)))))
       (w\<lparr>calls := calls w @ [Call_now]\<rparr>)"
  unfolding persist_alt
  by (simp add: and_then_def call_def)

lemma persist_ok:
  assumes "makedirs_fault env = None" and "save_fault env = None"
    and "files w ''static'' = None" and "files w ''static/generated'' = None"
    and "''static/generated/'' @ filename_of (now env) \<notin> dirs w"
    and "cpu env au = Inr a1" and "squeeze env a1 = Inr a2"
  shows "\<exists>w'. persist env mdl au w =
           (Inr \<lparr>status_code = 200,
                 body = [(''status'', JStr ''success''),
                         (''file_path'', JStr (''/static/generated/'' @ filename_of (now env)))]\<rparr>,
            w')"
proof -
  define p where "p = ''static/generated/'' @ filename_of (now env)"
  have p: "p \<noteq> ''static''" "p \<noteq> ''static/generated''"
    by (simp_all add: p_def)
  have dir: "os_path_dirname p = ''static/generated''"
    unfolding p_def by (rule dirname_eq)
  from assms(5) have "p \<notin> dirs w"
    unfolding p_def .
  with p dir assms(1-4,6,7) show ?thesis
    unfolding persist_unfold
    unfolding p_def [symmetric]
    by (simp add: and_then_def call_def expr_def os_makedirs_def prefixes_eq
        torchaudio_save_def Let_def)
qed

lemma run_after_validate:
  assumes mdl: "model env = Some mdl" and proc: "processor env = Some proc"
    and j: "request_json req = Inr j"
    and desc: "json_get j ''description'' (JStr '''') = Inr desc"
    and dv: "json_get j ''duration'' (JInt 10) = Inr dv"
    and d: "py_int dv = Inr d"
    and run: "generate_music env req w = (r, w')"
  shows "\<exists>cs. calls_since w w' = [Request_json, Request_json, Call_processor [desc]] @ cs \<and>
           (\<forall>inp inp'. proc [desc] = Inr inp \<longrightarrow> moved env inp = Inr inp' \<longrightarrow>
              Call_generate inp' (d * 50) \<in> set cs)"
proof -
  from validate_ok [OF j desc dv d] obtain w0
    where ok: "validate req w = (Inr (desc, d), w0)"
    by blast
  from run_try [OF mdl proc run] obtain res
    where "generate_music_try env proc mdl req w = (res, w')"
    by blast
  then show ?thesis
  proof (cases rule: try_cases)
    case (validate_raised e)
    with ok show ?thesis by simp
  next
    case (synthesize_raised desc' d' w1 e)
    with ok have same: "desc' = desc" "d' = d" "w1 = w0" by simp_all
    from validate_Inr [OF ok] have v: "calls w0 = calls w @ [Request_json, Request_json]"
      by blast
    from synthesize_run [OF synthesize_raised(2)] same obtain cs
      where "calls w' = calls w0 @ Call_processor [desc] # cs"
        and "\<forall>inp inp'. proc [desc] = Inr inp \<longrightarrow> moved env inp = Inr inp' \<longrightarrow>
              Call_generate inp' (d * 50) \<in> set cs"
      by blast
    with v show ?thesis
      by (intro exI [of _ cs]) (simp add: calls_since_def)
  next
    case (persisting desc' d' w1 au w2)
    with ok have same: "desc' = desc" "d' = d" "w1 = w0" by simp_all
    from validate_Inr [OF ok] have v: "calls w0 = calls w @ [Request_json, Request_json]"
      by blast
    from synthesize_run [OF persisting(2)] same obtain cs
      where s: "calls w2 = calls w0 @ Call_processor [desc] # cs"
        "\<forall>inp inp'. proc [desc] = Inr inp \<longrightarrow> moved env inp = Inr inp' \<longrightarrow>
              Call_generate inp' (d * 50) \<in> set cs"
      by blast
    from persist_run [OF persisting(3)] obtain ps
      where "calls w' = calls w2 @ ps"
      by blast
    with v s show ?thesis
      by (intro exI [of _ "cs @ ps"]) (simp add: calls_since_def)
  qed
qed

lemma run_completes:
  assumes mdl: "model env = Some mdl" and proc: "processor env = Some proc"
    and j: "request_json req = Inr j"
    and desc: "json_get j ''description'' (JStr '''') = Inr desc"
    and dv: "json_get j ''duration'' (JInt 10) = Inr dv"
    and d: "py_int dv = Inr d"
    and inp: "proc [desc] = Inr inp" and inp': "moved env inp = Inr inp'"
    and au: "generate mdl inp' (d * 50) = Inr au"
    and a1: "cpu env au = Inr a1" and a2: "squeeze env a1 = Inr a2"
    and faults: "makedirs_fault env = None" "save_fault env = None"
    and fs: "files w ''static'' = None" "files w ''static/generated'' = None"
      "''static/generated/'' @ filename_of (now env) \<notin> dirs w"
  shows "\<exists>w'. generate_music env req w =
           (\<lparr>status_code = 200,
             body = [(''status'', JStr ''success''),
                     (''file_path'', JStr (''/static/generated/'' @ filename_of (now env)))]\<rparr>,
            w')"
proof -
  from validate_ok [OF j desc dv d] obtain w0
    where v: "validate req w = (Inr (desc, d), w0)"
    by blast
  from validate_Inr [OF v] have fs0: "dirs w0 = dirs w" "files w0 = files w"
    by blast+
  obtain res w1 where s: "synthesize env proc mdl desc d w0 = (res, w1)"
    by (cases "synthesize env proc mdl desc d w0")
  from synthesize_run [OF s] inp inp' au
  have res: "res = Inr au" and fs1: "dirs w1 = dirs w0" "files w1 = files w0"
    by auto
  from persist_ok [OF faults, of w1 au a1 a2 mdl] fs fs0 fs1 a1 a2 obtain w'
    where "persist env mdl au w1 =
           (Inr \<lparr>status_code = 200,
                 body = [(''status'', JStr ''success''),
                         (''file_path'', JStr (''/static/generated/'' @ filename_of (now env)))]\<rparr>,
            w')"
    by auto
  with v s res mdl proc show ?thesis
    by (simp add: generate_music_def try_steps and_then_def)
qed

subsection \<open>The concrete setting\<close>

lemma run_eq: "generate_music env req w = (response_to env req w, world_after env req w)"
  by (simp add: response_to_def world_after_def)

lemma generate_called:
  assumes "model env = Some mdl" and "processor env = Some proc"
    and "request_json req = Inr (JObj kv)"
    and "py_int (case map_of kv ''duration'' of None \<Rightarrow> JInt 10 | Some v \<Rightarrow> v) = Inr d"
    and "proc [case map_of kv ''description'' of None \<Rightarrow> JStr '''' | Some v \<Rightarrow> v] = Inr inp"
    and "moved env inp = Inr inp'"
  shows "Call_generate inp' (d * 50) \<in> set (calls_since w (world_after env req w))"
proof -
  have "json_get (JObj kv) ''description'' (JStr '''') =
          Inr (case map_of kv ''description'' of None \<Rightarrow> JStr '''' | Some v \<Rightarrow> v)"
    and "json_get (JObj kv) ''duration'' (JInt 10) =
          Inr (case map_of kv ''duration'' of None \<Rightarrow> JInt 10 | Some v \<Rightarrow> v)"
    by (simp_all add: json_get_def)
  from run_after_validate [OF assms(1,2,3) this assms(4) run_eq [of env req w]] assms(5,6)
  show ?thesis by auto
qed

lemma example_strftime: "strftime example_now = ''20240309_070559''"
  by (simp add: strftime_def example_now_def pad2_def pad4_def digit_def char_of_eq_iff
      take_bit_eq_mod)

lemma example_filename: "filename_of example_now = ''generated_music_20240309_070559.wav''"
  by (simp add: filename_of_def example_strftime)

lemma example_in_range: "in_range example_now"
  by (simp add: in_range_def example_now_def)

lemma later_in_range: "in_range (now later_env)"
  by (simp add: in_range_def later_env_def example_env_def example_now_def)

lemma abc_fails:
  "py_int (JStr ''abc'') =
     Inl (Exn ''ValueError'' (''invalid literal for int() with base 10: '' @ [quote] @ ''abc'' @ [quote]))"
  by (simp add: py_int_def parse_int_def to_ascii_def strip_def ascii_space_def digits_def
      is_digit_def py_repr_def repr_char_def quote_def dquote_def backslash_def printable_def
      Let_def)

lemma example_env_simps:
  "model example_env = Some example_model"
  "processor example_env = Some example_processor"
  "now example_env = example_now"
  "moved example_env i = Inr i"
  "cpu example_env a = Inr a"
  "squeeze example_env a = Inr a"
  "makedirs_fault example_env = None"
  "save_fault example_env = None"
  by (simp_all add: example_env_def moved_def)

lemma failing_env_simps:
  "model failing_env = Some failing_model"
  "processor failing_env = Some example_processor"
  "moved failing_env i = Inr i"
  by (simp_all add: failing_env_def example_env_def moved_def)

lemma request_simps:
  "request_json (request_of kv) = Inr (JObj kv)"
  "request_json example_request = Inr (JObj [(''description'', JStr ''''), (''duration'', JInt 2)])"
  "request_json double_request = Inr (JObj [(''description'', JStr ''''), (''duration'', JInt 4)])"
  "request_json negative_request = Inr (JObj [(''duration'', JInt (- 3))])"
  "request_json bad_request = Inr (JObj [(''duration'', JStr ''abc'')])"
  by (simp_all add: request_of_def example_request_def double_request_def negative_request_def
      bad_request_def)

lemma example_world_simps:
  "files example_world p = None" "dirs example_world = {}" "calls example_world = []"
  by (simp_all add: example_world_def)

lemma example_responds:
  assumes "request_json req = Inr (JObj kv)"
    and "py_int (case map_of kv ''duration'' of None \<Rightarrow> JInt 10 | Some v \<Rightarrow> v) = Inr d"
  shows "response_to example_env req example_world = example_response"
proof -
  have "json_get (JObj kv) ''description'' (JStr '''') =
          Inr (case map_of kv ''description'' of None \<Rightarrow> JStr '''' | Some v \<Rightarrow> v)"
    and "json_get (JObj kv) ''duration'' (JInt 10) =
          Inr (case map_of kv ''duration'' of None \<Rightarrow> JInt 10 | Some v \<Rightarrow> v)"
    by (simp_all add: json_get_def)
  from run_completes [OF example_env_simps(1,2) assms(1) this assms(2), of 1 1 "nat (d * 50)"
      "nat (d * 50)" "nat (d * 50)" example_world]
  obtain w' where "generate_music example_env req example_world =
           (\<lparr>status_code = 200,
             body = [(''status'', JStr ''success''),
                     (''file_path'',
                      JStr (''/static/generated/'' @ filename_of (now example_env)))]\<rparr>,
            w')"
    by (auto simp: example_env_simps example_world_simps example_processor_def example_model_def)
  then show ?thesis
    by (simp add: response_to_def example_response_def example_env_simps example_filename)
qed

lemma clock_responds:
  "status_code (response_to (example_env\<lparr>now := t\<rparr>) example_request example_world) = 200"
proof -
  have "json_get (JObj [(''description'', JStr ''''), (''duration'', JInt 2)]) ''description''
          (JStr '''') = Inr (JStr '''')"
    and "json_get (JObj [(''description'', JStr ''''), (''duration'', JInt 2)]) ''duration''
          (JInt 10) = Inr (JInt 2)"
    and "py_int (JInt 2) = Inr 2"
    by (simp_all add: json_get_def py_int_def)
  from run_completes [OF _ _ request_simps(2) this, of "example_env\<lparr>now := t\<rparr>" example_model
      example_processor 1 1 100 100 100 example_world]
  obtain w' where "generate_music (example_env\<lparr>now := t\<rparr>) example_request example_world =
           (\<lparr>status_code = 200,
             body = [(''status'', JStr ''success''),
                     (''file_path'',
                      JStr (''/static/generated/'' @
                            filename_of (now (example_env\<lparr>now := t\<rparr>))))]\<rparr>,
            w')"
    by (auto simp: example_env_def moved_def example_world_simps example_processor_def
        example_model_def)
  then show ?thesis
    by (simp add: response_to_def)
qed

lemma colliding_in_range: "in_range (now colliding_env)"
  by (simp add: in_range_def colliding_env_def example_env_def example_now_def)

subsection \<open>The description reaches the handler only through the processor\<close>

lemma fs_sim_call: "fs_sim (call c r) (call c' r)"
  by (simp add: fs_sim_def same_fs_def call_def)

lemma fs_sim_expr: "fs_sim (expr r) (expr r)"
  by (simp add: fs_sim_def expr_def)

lemma fs_sim_makedirs: "fs_sim (os_makedirs env name) (os_makedirs env name)"
  by (auto simp: fs_sim_def same_fs_def os_makedirs_def Let_def split: option.splits)

lemma fs_sim_save: "fs_sim (torchaudio_save env p a s) (torchaudio_save env p a s)"
  by (auto simp: fs_sim_def same_fs_def torchaudio_save_def Let_def split: option.splits)

lemma fs_sim_and_then:
  assumes "fs_sim m m'" and "\<And>x. fs_sim (f x) (f' x)"
  shows "fs_sim (and_then m f) (and_then m' f')"
  unfolding fs_sim_def
proof (intro allI impI)
  fix w w' :: "('a, 'b) world"
  assume "same_fs w w'"
  with assms(1) have res: "fst (m w) = fst (m' w')" and fs: "same_fs (snd (m w)) (snd (m' w'))"
    by (simp_all add: fs_sim_def)
  obtain r w1 where m: "m w = (r, w1)" by (cases "m w")
  obtain r' w1' where m': "m' w' = (r', w1')" by (cases "m' w'")
  from res fs m m' have same: "r' = r" "same_fs w1 w1'" by simp_all
  show "fst (and_then m f w) = fst (and_then m' f' w') \<and>
        same_fs (snd (and_then m f w)) (snd (and_then m' f' w'))"
  proof (cases r)
    case (Inl e)
    with m m' same show ?thesis by (simp add: and_then_def)
  next
    case (Inr x)
    with m m' same assms(2) [of x] show ?thesis
      by (simp add: and_then_def fs_sim_def)
  qed
qed

lemma fs_sim_persist: "fs_sim (persist env mdl au) (persist env mdl au)"
  unfolding persist_alt
  by (intro fs_sim_and_then fs_sim_call fs_sim_expr fs_sim_makedirs fs_sim_save)

lemma fs_sim_synthesize:
  assumes "proc [desc] = proc [desc']"
  shows "fs_sim (synthesize env proc mdl desc d) (synthesize env proc mdl desc' d)"
  unfolding synthesize_def assms
  by (intro fs_sim_and_then fs_sim_call) (auto intro: fs_sim_call fs_sim_expr)

lemma description_only_through_processor:
  assumes mdl: "model env = Some mdl" and proc: "processor env = Some proc"
    and j: "request_json req = Inr (JObj kv)" and j2: "request_json req2 = Inr (JObj kv2)"
    and dur: "map_of kv2 ''duration'' = map_of kv ''duration''"
    and same: "proc [case map_of kv2 ''description'' of None \<Rightarrow> JStr '''' | Some v \<Rightarrow> v] =
               proc [case map_of kv ''description'' of None \<Rightarrow> JStr '''' | Some v \<Rightarrow> v]"
  shows "response_to env req2 w = response_to env req w \<and>
         dirs (world_after env req2 w) = dirs (world_after env req w) \<and>
         files (world_after env req2 w) = files (world_after env req w)"
proof -
  define desc where "desc = (case map_of kv ''description'' of None \<Rightarrow> JStr '''' | Some v \<Rightarrow> v)"
  define desc2 where "desc2 = (case map_of kv2 ''description'' of None \<Rightarrow> JStr '''' | Some v \<Rightarrow> v)"
  define dv where "dv = (case map_of kv ''duration'' of None \<Rightarrow> JInt 10 | Some v \<Rightarrow> v)"
  have g: "json_get (JObj kv) ''description'' (JStr '''') = Inr desc"
    "json_get (JObj kv) ''duration'' (JInt 10) = Inr dv"
    "json_get (JObj kv2) ''description'' (JStr '''') = Inr desc2"
    "json_get (JObj kv2) ''duration'' (JInt 10) = Inr dv"
    by (simp_all add: json_get_def desc_def desc2_def dv_def dur)
  show ?thesis
  proof (cases "py_int dv")
    case (Inl e)
    from validate_int_fails [OF j g(1,2) Inl, of w] validate_int_fails [OF j2 g(3,4) Inl, of w]
      mdl proc
    show ?thesis
      by (simp add: response_to_def world_after_def generate_music_def try_steps and_then_def)
  next
    case (Inr d)
    from validate_ok [OF j g(1,2) Inr, of w] obtain w0
      where v: "validate req w = (Inr (desc, d), w0)" by blast
    from validate_ok [OF j2 g(3,4) Inr, of w] obtain w0'
      where v2: "validate req2 w = (Inr (desc2, d), w0')" by blast
    from validate_Inr [OF v] validate_Inr [OF v2] have fs0: "same_fs w0' w0"
      by (auto simp: same_fs_def)
    from same have "proc [desc2] = proc [desc]"
      by (simp add: desc_def desc2_def)
    then have "fs_sim (and_then (synthesize env proc mdl desc2 d) (persist env mdl))
                 (and_then (synthesize env proc mdl desc d) (persist env mdl))"
      by (intro fs_sim_and_then fs_sim_synthesize fs_sim_persist)
    with fs0
    have "fst (and_then (synthesize env proc mdl desc2 d) (persist env mdl) w0') =
          fst (and_then (synthesize env proc mdl desc d) (persist env mdl) w0)"
      and "same_fs (snd (and_then (synthesize env proc mdl desc2 d) (persist env mdl) w0'))
            (snd (and_then (synthesize env proc mdl desc d) (persist env mdl) w0))"
      by (simp_all add: fs_sim_def)
    moreover from v mdl proc
    have "generate_music env req w =
            (case and_then (synthesize env proc mdl desc d) (persist env mdl) w0 of
               (Inr r, w') \<Rightarrow> (r, w')
             | (Inl e, w') \<Rightarrow>
                 (jsonify [(''status'', JStr ''error''), (''message'', JStr (exn_str e))] 500, w'))"
      by (simp add: generate_music_def try_steps and_then_def)
    moreover from v2 mdl proc
    have "generate_music env req2 w =
            (case and_then (synthesize env proc mdl desc2 d) (persist env mdl) w0' of
               (Inr r, w') \<Rightarrow> (r, w')
             | (Inl e, w') \<Rightarrow>
                 (jsonify [(''status'', JStr ''error''), (''message'', JStr (exn_str e))] 500, w'))"
      by (simp add: generate_music_def try_steps and_then_def)
    ultimately show ?thesis
      by (auto simp: response_to_def world_after_def same_fs_def split: prod.splits sum.splits)
  qed
qed

section \<open>The claims\<close>

text \<open>
  Claim C1. While the model or the processor is \<open>None\<close>, every request to POST /generate
  gets HTTP 500 with status "error" and the fixed message "Model not initialized properly",
  whatever the request holds. The world is unchanged: no call is recorded, so the answer is
  given before the request is read.
\<close>

theorem uninitialized_model_fixed_error:
  assumes "model env = None \<or> processor env = None"
  shows "generate_music env req w =
           (\<lparr>status_code = 500,
             body = [(''status'', JStr ''error''),
                     (''message'', JStr ''Model not initialized properly'')]\<rparr>, w)"
  using assms by (auto simp: generate_music_def jsonify_def split: option.splits)

theorem uninitialized_model_fixed_error_witness:
  "(model broken_env = None \<or> processor broken_env = None) \<and>
   generate_music broken_env example_request example_world =
     (\<lparr>status_code = 500,
       body = [(''status'', JStr ''error''),
               (''message'', JStr ''Model not initialized properly'')]\<rparr>, example_world) \<and>
   generate_music broken_env bad_request example_world =
     (\<lparr>status_code = 500,
       body = [(''status'', JStr ''error''),
               (''message'', JStr ''Model not initialized properly'')]\<rparr>, example_world)"
proof -
  have h: "model broken_env = None \<or> processor broken_env = None"
    by (simp add: broken_env_def)
  from h uninitialized_model_fixed_error [OF h, of example_request example_world]
    uninitialized_model_fixed_error [OF h, of bad_request example_world]
  show ?thesis by blast
qed

text \<open>
  Claim C2. When the generation step of a request raises an exception, that is, the call
  \<open>model.generate(i, n)\<close> was made for this request and raises \<open>e\<close>, the answer is HTTP 500
  with status "error" and the text of \<open>e\<close> as message; the files and the directories are
  as before, and \<open>torchaudio.save\<close> was not called.
\<close>

theorem generation_exception_reported:
  assumes "model env = Some mdl"
    and "generate_music env req w = (r, w')"
    and "Call_generate i n \<in> set (calls_since w w')"
    and "generate mdl i n = Inl e"
  shows "r = \<lparr>status_code = 500,
              body = [(''status'', JStr ''error''), (''message'', JStr (exn_str e))]\<rparr> \<and>
         files w' = files w \<and> dirs w' = dirs w \<and>
         (\<forall>p a s. Call_save p a s \<notin> set (calls_since w w'))"
proof -
  from assms(3) have "calls_since w w' \<noteq> []" by auto
  with assms(2) obtain mdl' proc
    where "model env = Some mdl'" and proc: "processor env = Some proc"
    by (rule run_initialized)
  from run_try [OF assms(1) proc assms(2)] obtain res
    where tr: "generate_music_try env proc mdl req w = (res, w')"
      and r: "r = (case res of Inr r' \<Rightarrow> r' | Inl e \<Rightarrow> error_response e)"
    by blast
  from generate_call_origin [OF tr assms(3)] assms(4)
  have "res = Inl e" and "files w' = files w" and "dirs w' = dirs w"
    and "\<forall>c \<in> set (calls_since w w'). \<not> is_save c"
    by blast+
  with r show ?thesis
    by (auto simp: error_response_def is_save_def)
qed

theorem generation_exception_reported_witness:
  "model failing_env = Some failing_model \<and>
   generate_music failing_env example_request example_world =
     (response_to failing_env example_request example_world,
      world_after failing_env example_request example_world) \<and>
   Call_generate 1 100 \<in>
     set (calls_since example_world (world_after failing_env example_request example_world)) \<and>
   generate failing_model 1 100 = Inl out_of_memory \<and>
   response_to failing_env example_request example_world =
     \<lparr>status_code = 500,
      body = [(''status'', JStr ''error''), (''message'', JStr ''CUDA out of memory'')]\<rparr> \<and>
   files (world_after failing_env example_request example_world) = files example_world \<and>
   dirs (world_after failing_env example_request example_world) = dirs example_world \<and>
   (\<forall>p a s. Call_save p a s \<notin>
      set (calls_since example_world (world_after failing_env example_request example_world)))"
proof -
  note h1 = failing_env_simps(1)
  note h2 = run_eq [of failing_env example_request example_world]
  have h3: "Call_generate 1 100 \<in>
     set (calls_since example_world (world_after failing_env example_request example_world))"
    using generate_called [OF failing_env_simps(1,2) request_simps(2), of 2 1 1 example_world]
    by (simp add: py_int_def example_processor_def failing_env_simps)
  have h4: "generate failing_model 1 100 = Inl out_of_memory"
    by (simp add: failing_model_def)
  from generation_exception_reported [OF h1 h2 h3 h4] h1 h2 h3 h4 show ?thesis
    by (simp add: out_of_memory_def)
qed

text \<open>
  Claim C3. The length budget passed to the model is the duration times 50: whenever
  \<open>model.generate(i, n)\<close> is called for a request whose duration is coerced to \<open>d\<close>, then
  \<open>n = d * 50\<close>. So a request with duration \<open>2 * d\<close> asks for exactly twice the budget.
\<close>

theorem length_budget_is_fifty_times_duration:
  assumes "generate_music env req w = (r, w')"
    and "request_json req = Inr j"
    and "json_get j ''duration'' (JInt 10) = Inr dv"
    and "py_int dv = Inr d"
    and "Call_generate i n \<in> set (calls_since w w')"
    and "generate_music env2 req2 w2 = (r2, w2')"
    and "request_json req2 = Inr j2"
    and "json_get j2 ''duration'' (JInt 10) = Inr dv2"
    and "py_int dv2 = Inr (2 * d)"
    and "Call_generate i2 n2 \<in> set (calls_since w2 w2')"
  shows "n = d * 50 \<and> n2 = 2 * n"
proof -
  from generate_call_budget [OF assms(1-5)] have "n = d * 50" .
  moreover from generate_call_budget [OF assms(6-10)] have "n2 = 2 * d * 50" .
  ultimately show ?thesis by simp
qed

theorem length_budget_is_fifty_times_duration_witness:
  "generate_music example_env example_request example_world =
     (response_to example_env example_request example_world,
      world_after example_env example_request example_world) \<and>
   request_json example_request =
     Inr (JObj [(''description'', JStr ''''), (''duration'', JInt 2)]) \<and>
   json_get (JObj [(''description'', JStr ''''), (''duration'', JInt 2)]) ''duration'' (JInt 10)
     = Inr (JInt 2) \<and>
   py_int (JInt 2) = Inr 2 \<and>
   Call_generate 1 100 \<in>
     set (calls_since example_world (world_after example_env example_request example_world)) \<and>
   generate_music example_env double_request example_world =
     (response_to example_env double_request example_world,
      world_after example_env double_request example_world) \<and>
   request_json double_request =
     Inr (JObj [(''description'', JStr ''''), (''duration'', JInt 4)]) \<and>
   json_get (JObj [(''description'', JStr ''''), (''duration'', JInt 4)]) ''duration'' (JInt 10)
     = Inr (JInt 4) \<and>
   py_int (JInt 4) = Inr (2 * 2) \<and>
   Call_generate 1 200 \<in>
     set (calls_since example_world (world_after example_env double_request example_world)) \<and>
   (100 :: int) = 2 * 50 \<and> (200 :: int) = 2 * 100"
proof -
  note h1 = run_eq [of example_env example_request example_world]
  note h2 = request_simps(2)
  have h3: "json_get (JObj [(''description'', JStr ''''), (''duration'', JInt 2)]) ''duration''
      (JInt 10) = Inr (JInt 2)"
    by (simp add: json_get_def)
  have h4: "py_int (JInt 2) = Inr 2"
    by (simp add: py_int_def)
  have h5: "Call_generate 1 100 \<in>
     set (calls_since example_world (world_after example_env example_request example_world))"
    using generate_called [OF example_env_simps(1,2) request_simps(2), of 2 1 1 example_world]
    by (simp add: py_int_def example_processor_def example_env_simps)
  note h6 = run_eq [of example_env double_request example_world]
  note h7 = request_simps(3)
  have h8: "json_get (JObj [(''description'', JStr ''''), (''duration'', JInt 4)]) ''duration''
      (JInt 10) = Inr (JInt 4)"
    by (simp add: json_get_def)
  have h9: "py_int (JInt 4) = Inr (2 * 2)"
    by (simp add: py_int_def)
  have h10: "Call_generate 1 200 \<in>
     set (calls_since example_world (world_after example_env double_request example_world))"
    using generate_called [OF example_env_simps(1,2) request_simps(3), of 4 1 1 example_world]
    by (simp add: py_int_def example_processor_def example_env_simps)
  from length_budget_is_fifty_times_duration [OF h1 h2 h3 h4 h5 h6 h7 h8 h9 h10]
  have c: "(100 :: int) = 2 * 50 \<and> (200 :: int) = 2 * 100" .
  from h1 h2 h3 h4 h5 h6 h7 h8 h9 h10 c show ?thesis
    by blast
qed





text \<open>
  Claim C6. The file name of a successful request is decided by the second of its time
  stamp: two successful requests return the same file path exactly when their time stamps
  agree on year, month, day, hour, minute and second. Stamps of different seconds give
  different names, stamps of the same second give the same name.
\<close>

theorem filenames_collide_iff_same_second:
  assumes "generate_music env req w = (r, w')" and "status_code r = 200"
    and "generate_music env2 req2 w2 = (r2, w2')" and "status_code r2 = 200"
    and "in_range (now env)" and "in_range (now env2)"
  shows "map_of (body r) ''file_path'' =
           Some (JStr (''/static/generated/generated_music_'' @ strftime (now env) @ ''.wav'')) \<and>
         map_of (body r2) ''file_path'' =
           Some (JStr (''/static/generated/generated_music_'' @ strftime (now env2) @ ''.wav'')) \<and>
         (map_of (body r) ''file_path'' = map_of (body r2) ''file_path'' \<longleftrightarrow>
            same_second (now env) (now env2))"
proof -
  from assms(1,2) obtain mdl proc
    where "generate_music_try env proc mdl req w = (Inr r, w')"
    by (rule run_success)
  from try_success [OF this]
  have r: "r = \<lparr>status_code = 200,
                body = [(''status'', JStr ''success''),
                        (''file_path'', JStr (''/static/generated/'' @ filename_of (now env)))]\<rparr>"
    by blast
  from assms(3,4) obtain mdl2 proc2
    where "generate_music_try env2 proc2 mdl2 req2 w2 = (Inr r2, w2')"
    by (rule run_success)
  from try_success [OF this]
  have r2: "r2 = \<lparr>status_code = 200,
                body = [(''status'', JStr ''success''),
                        (''file_path'', JStr (''/static/generated/'' @ filename_of (now env2)))]\<rparr>"
    by blast
  from r r2 strftime_same_second [OF assms(5,6)] show ?thesis
    by (simp add: filename_of_def)
qed

theorem filenames_collide_iff_same_second_witness:
  "generate_music example_env example_request example_world =
     (response_to example_env example_request example_world,
      world_after example_env example_request example_world) \<and>
   status_code (response_to example_env example_request example_world) = 200 \<and>
   generate_music later_env example_request example_world =
     (response_to later_env example_request example_world,
      world_after later_env example_request example_world) \<and>
   status_code (response_to later_env example_request example_world) = 200 \<and>
   generate_music colliding_env example_request example_world =
     (response_to colliding_env example_request example_world,
      world_after colliding_env example_request example_world) \<and>
   status_code (response_to colliding_env example_request example_world) = 200 \<and>
   in_range (now example_env) \<and> in_range (now later_env) \<and> in_range (now colliding_env) \<and>
   \<not> same_second (now example_env) (now later_env) \<and>
   map_of (body (response_to example_env example_request example_world)) ''file_path'' \<noteq>
     map_of (body (response_to later_env example_request example_world)) ''file_path'' \<and>
   now example_env \<noteq> now colliding_env \<and>
   same_second (now example_env) (now colliding_env) \<and>
   map_of (body (response_to example_env example_request example_world)) ''file_path'' =
     map_of (body (response_to colliding_env example_request example_world)) ''file_path''"
proof -
  note h1 = run_eq [of example_env example_request example_world]
  have h2: "status_code (response_to example_env example_request example_world) = 200"
    using clock_responds [of example_now] by (simp add: example_env_def)
  note h3 = run_eq [of later_env example_request example_world]
  have h4: "status_code (response_to later_env example_request example_world) = 200"
    unfolding later_env_def by (rule clock_responds)
  note k3 = run_eq [of colliding_env example_request example_world]
  have k4: "status_code (response_to colliding_env example_request example_world) = 200"
    unfolding colliding_env_def by (rule clock_responds)
  have h5: "in_range (now example_env)"
    by (simp add: example_env_simps example_in_range)
  note h6 = later_in_range
  note k6 = colliding_in_range
  have d: "\<not> same_second (now example_env) (now later_env)"
    by (simp add: same_second_def later_env_def example_env_def example_now_def)
  have s: "same_second (now example_env) (now colliding_env)"
    and n: "now example_env \<noteq> now colliding_env"
    by (simp_all add: same_second_def colliding_env_def example_env_def example_now_def)
  from filenames_collide_iff_same_second [OF h1 h2 h3 h4 h5 h6] d
  have c: "map_of (body (response_to example_env example_request example_world)) ''file_path'' \<noteq>
     map_of (body (response_to later_env example_request example_world)) ''file_path''"
    by blast
  from filenames_collide_iff_same_second [OF h1 h2 k3 k4 h5 k6] s
  have c': "map_of (body (response_to example_env example_request example_world)) ''file_path'' =
     map_of (body (response_to colliding_env example_request example_world)) ''file_path''"
    by blast
  from h1 h2 h3 h4 k3 k4 h5 h6 k6 d c n s c' show ?thesis
    by blast
qed

text \<open>
  Claim C7. When the try block of a request ends without an exception, the answer is
  HTTP 200 with status "success" and the file path \<open>/static/generated/<name>.wav\<close>;
  \<open>torchaudio.save\<close> was called exactly once in the request, under
  \<open>static/generated/<name>.wav\<close>; that file exists in the world the handler returns in,
  and no other file differs from before.
\<close>

theorem success_response_and_one_file:
  assumes "model env = Some mdl" and "processor env = Some proc"
    and "generate_music_try env proc mdl req w = (Inr r0, w')"
  shows "\<exists>name a.
           generate_music env req w =
             (\<lparr>status_code = 200,
               body = [(''status'', JStr ''success''),
                       (''file_path'', JStr (''/static/generated/'' @ name @ ''.wav''))]\<rparr>, w') \<and>
           filter is_save (calls_since w w') =
             [Call_save (''static/generated/'' @ name @ ''.wav'') a (sampling_rate mdl)] \<and>
           files w' (''static/generated/'' @ name @ ''.wav'') = Some (a, sampling_rate mdl) \<and>
           (\<forall>q. q \<noteq> ''static/generated/'' @ name @ ''.wav'' \<longrightarrow> files w' q = files w q)"
proof -
  from try_success [OF assms(3)] obtain desc au a1 a2 cs
    where r: "r0 = \<lparr>status_code = 200,
                body = [(''status'', JStr ''success''),
                        (''file_path'', JStr (''/static/generated/'' @ filename_of (now env)))]\<rparr>"
      and f: "files w' = (files w)(''static/generated/'' @ filename_of (now env) \<mapsto>
                                  (a2, sampling_rate mdl))"
      and c: "calls_since w w' =
             [Request_json, Request_json, Call_processor [desc]] @ cs @
             [Call_now, Call_makedirs ''static/generated'', Call_cpu au, Call_squeeze a1,
              Call_save (''static/generated/'' @ filename_of (now env)) a2 (sampling_rate mdl)]"
      and cs: "\<forall>c \<in> set cs. \<not> is_save c"
    by blast
  from cs have "filter is_save cs = []"
    by (simp add: filter_empty_conv)
  with c have saves: "filter is_save (calls_since w w') =
      [Call_save (''static/generated/'' @ filename_of (now env)) a2 (sampling_rate mdl)]"
    by (simp add: is_save_def)
  from assms r have run: "generate_music env req w = (r0, w')"
    by (simp add: generate_music_def)
  show ?thesis
    by (intro exI [of _ "''generated_music_'' @ strftime (now env)"] exI [of _ a2])
       (use run r f saves in \<open>simp add: filename_of_def\<close>)
qed

theorem success_response_and_one_file_witness:
  "model example_env = Some example_model \<and>
   processor example_env = Some example_processor \<and>
   generate_music_try example_env example_processor example_model example_request example_world =
     (Inr example_response, world_after example_env example_request example_world) \<and>
   (\<exists>name a.
      generate_music example_env example_request example_world =
        (\<lparr>status_code = 200,
          body = [(''status'', JStr ''success''),
                  (''file_path'', JStr (''/static/generated/'' @ name @ ''.wav''))]\<rparr>,
         world_after example_env example_request example_world) \<and>
      filter is_save
        (calls_since example_world (world_after example_env example_request example_world)) =
        [Call_save (''static/generated/'' @ name @ ''.wav'') a (sampling_rate example_model)] \<and>
      files (world_after example_env example_request example_world)
        (''static/generated/'' @ name @ ''.wav'') = Some (a, sampling_rate example_model) \<and>
      (\<forall>q. q \<noteq> ''static/generated/'' @ name @ ''.wav'' \<longrightarrow>
         files (world_after example_env example_request example_world) q =
         files example_world q))"
proof -
  note h1 = example_env_simps(1)
  note h2 = example_env_simps(2)
  have resp: "response_to example_env example_request example_world = example_response"
    by (rule example_responds [OF request_simps(2), of 2]) (simp add: py_int_def)
  have run: "generate_music example_env example_request example_world =
     (example_response, world_after example_env example_request example_world)"
    using run_eq [of example_env example_request example_world] resp by simp
  have "status_code example_response = 200"
    by (simp add: example_response_def)
  with run obtain mdl proc
    where "model example_env = Some mdl" and "processor example_env = Some proc"
      and "generate_music_try example_env proc mdl example_request example_world =
        (Inr example_response, world_after example_env example_request example_world)"
    by (rule run_success)
  with h1 h2
  have h3: "generate_music_try example_env example_processor example_model example_request
      example_world =
     (Inr example_response, world_after example_env example_request example_world)"
    by simp
  from h1 h2 h3 success_response_and_one_file [OF h1 h2 h3] show ?thesis
    by blast
qed

text \<open>
  Claim C8. A request whose description is the empty string meets no validation: the
  processor is called on the empty string itself, and when the processor and the move to
  the GPU return, the model is called on what they return, with the budget of the duration.
  The request goes on as one with any other description does: a request with the same
  duration and a description on which the processor returns the same gets the same
  response and leaves the same files and directories.
\<close>

theorem empty_description_forwarded:
  assumes "model env = Some mdl" and "processor env = Some proc"
    and "request_json req = Inr (JObj kv)"
    and "map_of kv ''description'' = Some (JStr '''')"
    and "py_int (case map_of kv ''duration'' of None \<Rightarrow> JInt 10 | Some v \<Rightarrow> v) = Inr d"
    and "generate_music env req w = (r, w')"
  shows "(\<exists>cs. calls_since w w' =
                 [Request_json, Request_json, Call_processor [JStr '''']] @ cs \<and>
               (\<forall>inp inp'. proc [JStr ''''] = Inr inp \<longrightarrow> moved env inp = Inr inp' \<longrightarrow>
                  Call_generate inp' (d * 50) \<in> set cs)) \<and>
         (\<forall>req2 kv2 s.
            request_json req2 = Inr (JObj kv2) \<longrightarrow>
            map_of kv2 ''description'' = Some (JStr s) \<longrightarrow>
            map_of kv2 ''duration'' = map_of kv ''duration'' \<longrightarrow>
            proc [JStr s] = proc [JStr ''''] \<longrightarrow>
              response_to env req2 w = r \<and>
              dirs (world_after env req2 w) = dirs w' \<and>
              files (world_after env req2 w) = files w')"
proof -
  from assms(4)
  have "json_get (JObj kv) ''description'' (JStr '''') = Inr (JStr '''')"
    and "json_get (JObj kv) ''duration'' (JInt 10) =
          Inr (case map_of kv ''duration'' of None \<Rightarrow> JInt 10 | Some v \<Rightarrow> v)"
    by (simp_all add: json_get_def)
  from run_after_validate [OF assms(1,2,3) this assms(5,6)]
  have forwarded: "\<exists>cs. calls_since w w' =
                 [Request_json, Request_json, Call_processor [JStr '''']] @ cs \<and>
               (\<forall>inp inp'. proc [JStr ''''] = Inr inp \<longrightarrow> moved env inp = Inr inp' \<longrightarrow>
                  Call_generate inp' (d * 50) \<in> set cs)" .
  from assms(6) have here: "response_to env req w = r" "world_after env req w = w'"
    by (simp_all add: response_to_def world_after_def)
  have "response_to env req2 w = r \<and>
        dirs (world_after env req2 w) = dirs w' \<and>
        files (world_after env req2 w) = files w'"
    if "request_json req2 = Inr (JObj kv2)" and "map_of kv2 ''description'' = Some (JStr s)"
      and "map_of kv2 ''duration'' = map_of kv ''duration''"
      and "proc [JStr s] = proc [JStr '''']"
    for req2 kv2 s
    using description_only_through_processor [OF assms(1,2,3) that(1,3), of w] that(2,4)
      assms(4) here
    by simp
  with forwarded show ?thesis
    by blast
qed

theorem empty_description_forwarded_witness:
  "model example_env = Some example_model \<and>
   processor example_env = Some example_processor \<and>
   request_json example_request =
     Inr (JObj [(''description'', JStr ''''), (''duration'', JInt 2)]) \<and>
   map_of [(''description'', JStr ''''), (''duration'', JInt 2)] ''description'' =
     Some (JStr '''') \<and>
   py_int (case map_of [(''description'', JStr ''''), (''duration'', JInt 2)] ''duration'' of
             None \<Rightarrow> JInt 10 | Some v \<Rightarrow> v) = Inr 2 \<and>
   generate_music example_env example_request example_world =
     (example_response, world_after example_env example_request example_world) \<and>
   (\<exists>cs. calls_since example_world (world_after example_env example_request example_world) =
           [Request_json, Request_json, Call_processor [JStr '''']] @ cs \<and>
         Call_generate 1 100 \<in> set cs) \<and>
   request_json piano_request =
     Inr (JObj [(''description'', JStr ''calm piano''), (''duration'', JInt 2)]) \<and>
   map_of [(''description'', JStr ''calm piano''), (''duration'', JInt 2)] ''description'' =
     Some (JStr ''calm piano'') \<and>
   map_of [(''description'', JStr ''calm piano''), (''duration'', JInt 2)] ''duration'' =
     map_of [(''description'', JStr ''''), (''duration'', JInt 2)] ''duration'' \<and>
   example_processor [JStr ''calm piano''] = example_processor [JStr ''''] \<and>
   response_to example_env piano_request example_world = example_response \<and>
   dirs (world_after example_env piano_request example_world) =
     dirs (world_after example_env example_request example_world) \<and>
   files (world_after example_env piano_request example_world) =
     files (world_after example_env example_request example_world)"
proof -
  note h1 = example_env_simps(1)
  note h2 = example_env_simps(2)
  note h3 = request_simps(2)
  have h4: "map_of [(''description'', JStr ''''), (''duration'', JInt 2)] ''description'' =
     Some (JStr '''')"
    by simp
  have h5: "py_int (case map_of [(''description'', JStr ''''), (''duration'', JInt 2)]
      ''duration'' of None \<Rightarrow> JInt 10 | Some v \<Rightarrow> v) = Inr 2"
    by (simp add: py_int_def)
  have resp: "response_to example_env example_request example_world = example_response"
    by (rule example_responds [OF request_simps(2), of 2]) (simp add: py_int_def)
  have h6: "generate_music example_env example_request example_world =
     (example_response, world_after example_env example_request example_world)"
    using run_eq [of example_env example_request example_world] resp by simp
  have k1: "request_json piano_request =
     Inr (JObj [(''description'', JStr ''calm piano''), (''duration'', JInt 2)])"
    by (simp add: piano_request_def request_of_def)
  have k2: "map_of [(''description'', JStr ''calm piano''), (''duration'', JInt 2)]
      ''description'' = Some (JStr ''calm piano'')"
    by simp
  have k3: "map_of [(''description'', JStr ''calm piano''), (''duration'', JInt 2)] ''duration'' =
     map_of [(''description'', JStr ''''), (''duration'', JInt 2)] ''duration''"
    by simp
  have k4: "example_processor [JStr ''calm piano''] = example_processor [JStr '''']"
    by (simp add: example_processor_def)
  note c = empty_description_forwarded [OF h1 h2 h3 h4 h5 h6]
  from c have c1: "\<exists>cs. calls_since example_world
            (world_after example_env example_request example_world) =
           [Request_json, Request_json, Call_processor [JStr '''']] @ cs \<and>
         Call_generate 1 100 \<in> set cs"
    by (simp add: example_processor_def example_env_simps)
  from c k1 k2 k3 k4
  have c2: "response_to example_env piano_request example_world = example_response \<and>
   dirs (world_after example_env piano_request example_world) =
     dirs (world_after example_env example_request example_world) \<and>
   files (world_after example_env piano_request example_world) =
     files (world_after example_env example_request example_world)"
    by blast
  from h1 h2 h3 h4 h5 h6 c1 k1 k2 k3 k4 c2 show ?thesis
    by blast
qed

text \<open>
  Claim C9. When the duration of the request body cannot be coerced to an integer (the
  string "abc", say), the exception of \<open>int\<close> is caught: the handler returns HTTP 500 with
  status "error" and the message of that exception. It returns a response (no client-error
  code, no crash), and only the request was read.
\<close>

theorem duration_coercion_failure_reported:
  assumes "model env = Some mdl" and "processor env = Some proc"
    and "request_json req = Inr (JObj kv)"
    and "map_of kv ''duration'' = Some v"
    and "py_int v = Inl e"
  shows "generate_music env req w =
           (\<lparr>status_code = 500,
             body = [(''status'', JStr ''error''), (''message'', JStr (exn_str e))]\<rparr>,
            w\<lparr>calls := calls w @ [Request_json, Request_json]\<rparr>)"
proof -
  have "validate req w = (Inl e, w\<lparr>calls := calls w @ [Request_json, Request_json]\<rparr>)"
    using assms(3-5)
    by (intro validate_int_fails [where j = "JObj kv" and dv = v]) (simp_all add: json_get_def)
  with assms(1,2) show ?thesis
    by (simp add: generate_music_def try_steps and_then_def jsonify_def)
qed

theorem duration_coercion_failure_reported_witness:
  "model example_env = Some example_model \<and>
   processor example_env = Some example_processor \<and>
   request_json bad_request = Inr (JObj [(''duration'', JStr ''abc'')]) \<and>
   map_of [(''duration'', JStr ''abc'')] ''duration'' = Some (JStr ''abc'') \<and>
   py_int (JStr ''abc'') =
     Inl (Exn ''ValueError''
            (''invalid literal for int() with base 10: '' @ [quote] @ ''abc'' @ [quote])) \<and>
   generate_music example_env bad_request example_world =
     (\<lparr>status_code = 500,
       body = [(''status'', JStr ''error''),
               (''message'',
                JStr (''invalid literal for int() with base 10: '' @ [quote] @ ''abc'' @ [quote]))]\<rparr>,
      example_world\<lparr>calls := [Request_json, Request_json]\<rparr>)"
proof -
  note h1 = example_env_simps(1)
  note h2 = example_env_simps(2)
  note h3 = request_simps(5)
  have h4: "map_of [(''duration'', JStr ''abc'')] ''duration'' = Some (JStr ''abc'')"
    by simp
  note h5 = abc_fails
  from duration_coercion_failure_reported [OF h1 h2 h3 h4 h5, of example_world]
  have c: "generate_music example_env bad_request example_world =
     (\<lparr>status_code = 500,
       body = [(''status'', JStr ''error''),
               (''message'',
                JStr (''invalid literal for int() with base 10: '' @ [quote] @ ''abc'' @ [quote]))]\<rparr>,
      example_world\<lparr>calls := [Request_json, Request_json]\<rparr>)"
    by (simp add: example_world_simps)
  from h1 h2 h3 h4 h5 c show ?thesis
    by blast
qed

text \<open>
  Claim C10. Whatever the setting, the request and the world, the body of the response
  has a status that is "success" or "error", and the HTTP code is 200 exactly when the
  status is "success" and 500 exactly when it is "error".
\<close>

theorem status_agrees_with_code:
  "(map_of (body (fst (generate_music env req w))) ''status'' = Some (JStr ''success'') \<or>
    map_of (body (fst (generate_music env req w))) ''status'' = Some (JStr ''error'')) \<and>
   (status_code (fst (generate_music env req w)) = 200 \<longleftrightarrow>
      map_of (body (fst (generate_music env req w))) ''status'' = Some (JStr ''success'')) \<and>
   (status_code (fst (generate_music env req w)) = 500 \<longleftrightarrow>
      map_of (body (fst (generate_music env req w))) ''status'' = Some (JStr ''error''))"
proof -
  obtain r w' where run: "generate_music env req w = (r, w')"
    by (cases "generate_music env req w")
  have "r = \<lparr>status_code = 200,
                body = [(''status'', JStr ''success''),
                        (''file_path'', JStr (''/static/generated/'' @ filename_of (now env)))]\<rparr> \<or>
        (status_code r = 500 \<and> map_of (body r) ''status'' = Some (JStr ''error''))"
  proof (cases "model env = None \<or> processor env = None")
    case True
    from run_uninitialized [OF True, of req w] run show ?thesis
      by auto
  next
    case False
    then obtain mdl proc where mp: "model env = Some mdl" "processor env = Some proc"
      by auto
    from run_try [OF mp run] obtain res
      where tr: "generate_music_try env proc mdl req w = (res, w')"
        and r: "r = (case res of Inr r' \<Rightarrow> r' | Inl e \<Rightarrow> error_response e)"
      by blast
    show ?thesis
    proof (cases res)
      case (Inl e)
      with r show ?thesis by (simp add: error_response_def)
    next
      case (Inr r')
      with r tr try_success [of env proc mdl req w r w'] show ?thesis
        by auto
    qed
  qed
  with run show ?thesis
    by auto
qed

theorem status_agrees_with_code_witness:
  "(map_of (body (fst (generate_music failing_env example_request example_world))) ''status'' =
      Some (JStr ''success'') \<or>
    map_of (body (fst (generate_music failing_env example_request example_world))) ''status'' =
      Some (JStr ''error'')) \<and>
   (status_code (fst (generate_music failing_env example_request example_world)) = 200 \<longleftrightarrow>
      map_of (body (fst (generate_music failing_env example_request example_world))) ''status'' =
        Some (JStr ''success'')) \<and>
   (status_code (fst (generate_music failing_env example_request example_world)) = 500 \<longleftrightarrow>
      map_of (body (fst (generate_music failing_env example_request example_world))) ''status'' =
        Some (JStr ''error''))"
  by (rule status_agrees_with_code)

end
